theory Spec2Isabelle
  imports Complex_Main "HOL-Library.Sublist"
begin

section \<open>Data model: the tabular dataset of \<^verbatim>\<open>streamlit_app.py\<close>\<close>

text \<open>
  The application works on one pandas \<^verbatim>\<open>DataFrame\<close> read from a CSV file whose columns
  are all numeric. A cell is either a number or the missing value \<^verbatim>\<open>NaN\<close>. Finite
  floating-point numbers are embedded in the reals: the program only compares them
  (\<^verbatim>\<open>>=\<close>, \<^verbatim>\<open><=\<close>, \<^verbatim>\<open>>\<close>, \<^verbatim>\<open><\<close>, equality of rows), and on finite floats these agree
  with the order of the reals. Every comparison with \<^verbatim>\<open>NaN\<close> is false, as in pandas.

  A frame is its list of column names and its rows in order; a row carries its index
  label (the labels survive row selection) and its values in column order. A
  \<^verbatim>\<open>Series\<close> is one column: labelled cells. The dataset's labels are integers (the
  \<^verbatim>\<open>RangeIndex\<close> of \<^verbatim>\<open>read_csv\<close>); the statistics table is labelled by strings.
\<close>

datatype cell = NaN | Num real

type_synonym 'l row = "'l \<times> cell list"

type_synonym 'l series = "('l \<times> cell) list"

record 'l dataframe =
  columns :: "string list"
  rows :: "'l row list"

datatype error = KeyError string | ValueError | StreamlitAPIException

text \<open>Sequencing of statements that may raise: the first exception ends the run.\<close>

definition then_do :: "error + 'a \<Rightarrow> ('a \<Rightarrow> error + 'b) \<Rightarrow> error + 'b" where
  "then_do m f = (case m of Inl e \<Rightarrow> Inl e | Inr x \<Rightarrow> f x)"

section \<open>The pandas operations the program calls\<close>

text \<open>
  \<^verbatim>\<open>df[c]\<close>: the column named \<open>c\<close>, or \<^verbatim>\<open>KeyError\<close>. The cell of a row under a column
  name is found by position; a row too short to have the column (which a frame, being
  a table with one value per row and column, never has) reads as \<^verbatim>\<open>NaN\<close>.
\<close>

definition lookup :: "string list \<Rightarrow> cell list \<Rightarrow> string \<Rightarrow> cell" where
  "lookup cols vs c = (case map_of (zip cols vs) c of Some x \<Rightarrow> x | None \<Rightarrow> NaN)"

definition getitem :: "'l dataframe \<Rightarrow> string \<Rightarrow> error + 'l series" where
  "getitem df c =
     (if c \<in> set (columns df)
      then Inr (map (\<lambda>r. (fst r, lookup (columns df) (snd r) c)) (rows df))
      else Inl (KeyError c))"

text \<open>Elementwise comparison of a column with a scalar gives a boolean mask.\<close>

fun cell_ge :: "cell \<Rightarrow> real \<Rightarrow> bool" where
  "cell_ge NaN b = False"
| "cell_ge (Num v) b = (b \<le> v)"

fun cell_le :: "cell \<Rightarrow> real \<Rightarrow> bool" where
  "cell_le NaN b = False"
| "cell_le (Num v) b = (v \<le> b)"

fun cell_gt :: "cell \<Rightarrow> real \<Rightarrow> bool" where
  "cell_gt NaN b = False"
| "cell_gt (Num v) b = (b < v)"

fun cell_lt :: "cell \<Rightarrow> real \<Rightarrow> bool" where
  "cell_lt NaN b = False"
| "cell_lt (Num v) b = (v < b)"

definition series_ge :: "'l series \<Rightarrow> real \<Rightarrow> bool list" where
  "series_ge s b = map (\<lambda>p. cell_ge (snd p) b) s"

definition series_le :: "'l series \<Rightarrow> real \<Rightarrow> bool list" where
  "series_le s b = map (\<lambda>p. cell_le (snd p) b) s"

definition series_gt :: "'l series \<Rightarrow> real \<Rightarrow> bool list" where
  "series_gt s b = map (\<lambda>p. cell_gt (snd p) b) s"

definition series_lt :: "'l series \<Rightarrow> real \<Rightarrow> bool list" where
  "series_lt s b = map (\<lambda>p. cell_lt (snd p) b) s"

text \<open>\<^verbatim>\<open>m1 & m2\<close> on two masks of the same frame, and \<^verbatim>\<open>df[mask]\<close>: the rows whose mask
  entry is true, in order, with their labels.\<close>

definition mask_and :: "bool list \<Rightarrow> bool list \<Rightarrow> bool list" where
  "mask_and a b = map (\<lambda>p. fst p \<and> snd p) (zip a b)"

definition getitem_mask :: "'l dataframe \<Rightarrow> bool list \<Rightarrow> 'l dataframe" where
  "getitem_mask df m = df\<lparr>rows := map fst (filter snd (zip (rows df) m))\<rparr>"

section \<open>The Filter Layer (\<^verbatim>\<open>main\<close>, ``Apply Filters'')\<close>

text \<open>
  \<^verbatim>\<open>
  df_filtered = df[
      (df['quality'] >= quality_filter[0]) & (df['quality'] <= quality_filter[1]) &
      (df['alcohol'] >= alcohol_filter[0]) & (df['alcohol'] <= alcohol_filter[1])
  ]
  \<close>
  The quality bounds are Python ints, the alcohol bounds Python floats.
\<close>

definition apply_filters ::
  "'l dataframe \<Rightarrow> int \<times> int \<Rightarrow> real \<times> real \<Rightarrow> error + 'l dataframe" where
  "apply_filters df quality_filter alcohol_filter =
     then_do (getitem df ''quality'') (\<lambda>q0.
     then_do (getitem df ''quality'') (\<lambda>q1.
     then_do (getitem df ''alcohol'') (\<lambda>a0.
     then_do (getitem df ''alcohol'') (\<lambda>a1.
       Inr (getitem_mask df
         (mask_and
           (mask_and
             (mask_and (series_ge q0 (of_int (fst quality_filter)))
                       (series_le q1 (of_int (snd quality_filter))))
             (series_ge a0 (fst alcohol_filter)))
           (series_le a1 (snd alcohol_filter))))))))"

section \<open>The Cleaning Pipeline (\<^verbatim>\<open>main\<close>, ``Clean the data'')\<close>

text \<open>
  \<^verbatim>\<open>DataFrame.dropna()\<close> with its defaults (\<^verbatim>\<open>axis=0, how='any'\<close>) selects the rows whose
  \<^verbatim>\<open>notna()\<close> mask is true in every column.
\<close>

definition notna_all :: "'l row \<Rightarrow> bool" where
  "notna_all r = list_all (\<lambda>c. c \<noteq> NaN) (snd r)"

definition dropna :: "'l dataframe \<Rightarrow> 'l dataframe" where
  "dropna df = getitem_mask df (map notna_all (rows df))"

text \<open>
  \<^verbatim>\<open>DataFrame.duplicated()\<close> with \<^verbatim>\<open>keep='first'\<close> goes through the rows in order and marks
  a row whose values were seen in an earlier row (the index label is not compared);
  \<^verbatim>\<open>drop_duplicates()\<close> returns the frame as it is when \<^verbatim>\<open>DataFrame.empty\<close> holds (no rows
  or no columns) and otherwise \<^verbatim>\<open>self[-self.duplicated()]\<close>.
\<close>

fun duplicated_from :: "cell list list \<Rightarrow> cell list list \<Rightarrow> bool list" where
  "duplicated_from seen [] = []"
| "duplicated_from seen (v # vs) = (v \<in> set seen) # duplicated_from (v # seen) vs"

definition duplicated :: "'l dataframe \<Rightarrow> bool list" where
  "duplicated df = duplicated_from [] (map snd (rows df))"

definition empty_df :: "'l dataframe \<Rightarrow> bool" where
  "empty_df df = (columns df = [] \<or> rows df = [])"

definition drop_duplicates :: "'l dataframe \<Rightarrow> 'l dataframe" where
  "drop_duplicates df =
     (if empty_df df then df else getitem_mask df (map Not (duplicated df)))"

text \<open>
  \<^verbatim>\<open>Series.astype(int)\<close>: a float is truncated towards zero, an integer stays as it is,
  and a \<^verbatim>\<open>NaN\<close> anywhere in the column raises (pandas' \<^verbatim>\<open>IntCastingNaNError\<close>, a
  \<^verbatim>\<open>ValueError\<close>). Values are taken to lie within the 64-bit range.
\<close>

definition trunc :: "real \<Rightarrow> int" where
  "trunc v = (if 0 \<le> v then \<lfloor>v\<rfloor> else \<lceil>v\<rceil>)"

fun astype_int :: "'l series \<Rightarrow> error + 'l series" where
  "astype_int [] = Inr []"
| "astype_int ((l, NaN) # s) = Inl ValueError"
| "astype_int ((l, Num v) # s) =
     then_do (astype_int s) (\<lambda>s'. Inr ((l, Num (of_int (trunc v))) # s'))"

text \<open>
  \<^verbatim>\<open>df[c] = s\<close> for a series \<open>s\<close> whose index is the frame's own (as at both places where
  the program assigns a column): the cells are taken by position. An existing column is
  overwritten where it stands, a new one is appended.
\<close>

definition setitem :: "'l dataframe \<Rightarrow> string \<Rightarrow> 'l series \<Rightarrow> 'l dataframe" where
  "setitem df c s =
     (if c \<in> set (columns df)
      then df\<lparr>rows := map (\<lambda>p. (fst (fst p),
                 map (\<lambda>q. if fst q = c then snd (snd p) else snd q)
                     (zip (columns df) (snd (fst p)))))
               (zip (rows df) s)\<rparr>
      else df\<lparr>columns := columns df @ [c],
              rows := map (\<lambda>p. (fst (fst p), snd (fst p) @ [snd (snd p)])) (zip (rows df) s)\<rparr>)"

text \<open>\<^verbatim>\<open>df.drop(columns=cs)\<close>: \<^verbatim>\<open>KeyError\<close> when a name of \<open>cs\<close> is not a column, else the frame
  without the columns named in \<open>cs\<close>.\<close>

definition drop_cells :: "string list \<Rightarrow> string list \<Rightarrow> cell list \<Rightarrow> cell list" where
  "drop_cells cs cols vs = map snd (filter (\<lambda>p. fst p \<notin> set cs) (zip cols vs))"

definition drop_columns :: "'l dataframe \<Rightarrow> string list \<Rightarrow> error + 'l dataframe" where
  "drop_columns df cs =
     (case filter (\<lambda>c. c \<notin> set (columns df)) cs of
        c # _ \<Rightarrow> Inl (KeyError c)
      | [] \<Rightarrow> Inr \<lparr>columns = filter (\<lambda>c. c \<notin> set cs) (columns df),
                   rows = map (\<lambda>r. (fst r, drop_cells cs (columns df) (snd r))) (rows df)\<rparr>)"

text \<open>
  The cleaning block of \<^verbatim>\<open>main\<close>, statement by statement:
  \<^verbatim>\<open>
  df_cleaned = df_filtered.dropna().drop_duplicates()
  df_cleaned['Id'] = df_cleaned['Id'].astype(int)
  df_cleaned = df_cleaned[(df_cleaned['fixed acidity'] > 0) & (df_cleaned['fixed acidity'] < 15)]
  df_cleaned = df_cleaned.drop(columns=['Id'])
  \<close>
\<close>

definition convert_id :: "'l dataframe \<Rightarrow> error + 'l dataframe" where
  "convert_id df =
     then_do (getitem df ''Id'') (\<lambda>ids.
     then_do (astype_int ids) (\<lambda>ids'.
       Inr (setitem df ''Id'' ids')))"

definition filter_fixed_acidity :: "'l dataframe \<Rightarrow> error + 'l dataframe" where
  "filter_fixed_acidity df =
     then_do (getitem df ''fixed acidity'') (\<lambda>fa0.
     then_do (getitem df ''fixed acidity'') (\<lambda>fa1.
       Inr (getitem_mask df (mask_and (series_gt fa0 0) (series_lt fa1 15)))))"

definition clean_data :: "'l dataframe \<Rightarrow> error + 'l dataframe" where
  "clean_data df_filtered =
     then_do (convert_id (drop_duplicates (dropna df_filtered))) (\<lambda>df1.
     then_do (filter_fixed_acidity df1) (\<lambda>df2.
       drop_columns df2 [''Id'']))"

section \<open>The session cache (\<^verbatim>\<open>main\<close>, ``Data Cleaning and Caching'')\<close>

text \<open>
  \<^verbatim>\<open>st.session_state\<close> outlives the reruns of the script; the program uses one key of it,
  \<^verbatim>\<open>df_cleaned\<close>, absent until the first store.
  \<^verbatim>\<open>
  if 'df_cleaned' not in st.session_state:
      ... st.session_state.df_cleaned = df_cleaned
  df_cleaned = st.session_state.df_cleaned
  \<close>
  \<open>main\<close> is one run of the script from ``Apply Filters'' to the read of the cache, on
  the loaded dataset and the two ranges the sliders returned. It gives the session state
  the run leaves behind and the cleaned dataset handed to the views, or the exception
  that ended the run; an exception leaves the session state as it was. The CSV export
  between the two blocks and the views after them do not write the session state.
\<close>

record 'l session_state =
  df_cleaned :: "'l dataframe option"

definition main ::
  "'l session_state \<Rightarrow> 'l dataframe \<Rightarrow> int \<times> int \<Rightarrow> real \<times> real
     \<Rightarrow> 'l session_state \<times> (error + 'l dataframe)" where
  "main st df quality_filter alcohol_filter =
     (case apply_filters df quality_filter alcohol_filter of
        Inl e \<Rightarrow> (st, Inl e)
      | Inr df_filtered \<Rightarrow>
          (case df_cleaned st of
             None \<Rightarrow>
               (case clean_data df_filtered of
                  Inl e \<Rightarrow> (st, Inl e)
                | Inr c \<Rightarrow> (st\<lparr>df_cleaned := Some c\<rparr>, Inr c))
           | Some c \<Rightarrow> (st, Inr c)))"

text \<open>A session: the reruns the user's interactions trigger, one after the other.\<close>

fun reruns ::
  "'l session_state \<Rightarrow> ('l dataframe \<times> (int \<times> int) \<times> (real \<times> real)) list \<Rightarrow> 'l session_state" where
  "reruns st [] = st"
| "reruns st ((df, qf, af) # rest) = reruns (fst (main st df qf af)) rest"

section \<open>The Cleaning Pipeline as the specification words it\<close>

text \<open>
  The five steps of the specification, each on rows: drop the rows with a missing field;
  drop the rows that repeat an earlier row exactly; coerce \<^verbatim>\<open>Id\<close> to integer; keep the
  rows with \<open>0 < fixed acidity < 15\<close>; drop the \<^verbatim>\<open>Id\<close> column. A step that needs a column
  the dataset does not have fails as the lookup of that column does.
\<close>

definition drop_missing_rows :: "'l dataframe \<Rightarrow> 'l dataframe" where
  "drop_missing_rows df = df\<lparr>rows := filter (\<lambda>r. NaN \<notin> set (snd r)) (rows df)\<rparr>"

definition first_occurrence :: "'l row list \<Rightarrow> nat \<Rightarrow> bool" where
  "first_occurrence rs i = list_all (\<lambda>j. snd (rs ! j) \<noteq> snd (rs ! i)) [0..<i]"

definition drop_duplicate_rows :: "'l dataframe \<Rightarrow> 'l dataframe" where
  "drop_duplicate_rows df =
     df\<lparr>rows := map (\<lambda>i. rows df ! i) (filter (first_occurrence (rows df)) [0..<length (rows df)])\<rparr>"

definition coerce_id :: "'l dataframe \<Rightarrow> error + 'l dataframe" where
  "coerce_id df =
     (if ''Id'' \<notin> set (columns df) then Inl (KeyError ''Id'')
      else if list_ex (\<lambda>r. lookup (columns df) (snd r) ''Id'' = NaN) (rows df) then Inl ValueError
      else Inr (df\<lparr>rows := map (\<lambda>r. (fst r,
                   map (\<lambda>q. if fst q = ''Id''
                              then (case snd q of NaN \<Rightarrow> NaN | Num v \<Rightarrow> Num (of_int (trunc v)))
                              else snd q)
                       (zip (columns df) (snd r)))) (rows df)\<rparr>))"

definition acidity_in_bounds :: "string list \<Rightarrow> 'l row \<Rightarrow> bool" where
  "acidity_in_bounds cols r =
     (case lookup cols (snd r) ''fixed acidity'' of NaN \<Rightarrow> False | Num v \<Rightarrow> 0 < v \<and> v < 15)"

definition keep_acidity_in_bounds :: "'l dataframe \<Rightarrow> error + 'l dataframe" where
  "keep_acidity_in_bounds df =
     (if ''fixed acidity'' \<notin> set (columns df) then Inl (KeyError ''fixed acidity'')
      else Inr (df\<lparr>rows := filter (acidity_in_bounds (columns df)) (rows df)\<rparr>))"

definition drop_id_column :: "'l dataframe \<Rightarrow> error + 'l dataframe" where
  "drop_id_column df =
     (if ''Id'' \<notin> set (columns df) then Inl (KeyError ''Id'')
      else Inr \<lparr>columns = filter (\<lambda>c. c \<noteq> ''Id'') (columns df),
                rows = map (\<lambda>r. (fst r, map snd (filter (\<lambda>p. fst p \<noteq> ''Id'') (zip (columns df) (snd r)))))
                           (rows df)\<rparr>)"

definition cleaning_pipeline_spec :: "'l dataframe \<Rightarrow> error + 'l dataframe" where
  "cleaning_pipeline_spec df =
     then_do (coerce_id (drop_duplicate_rows (drop_missing_rows df))) (\<lambda>d3.
     then_do (keep_acidity_in_bounds d3) drop_id_column)"

section \<open>Descriptive statistics (\<^verbatim>\<open>data_cleaning_and_describing\<close>)\<close>

text \<open>
  The statistics of a column are taken over its numbers, \<^verbatim>\<open>NaN\<close> skipped, and are \<^verbatim>\<open>NaN\<close>
  themselves where pandas has nothing to compute from: every one of them on an empty
  column, the standard deviation (with \<^verbatim>\<open>ddof=1\<close>) also on a single value. Quantiles
  interpolate linearly between the two nearest order statistics. The arithmetic is that
  of the reals.
\<close>

definition column_cells :: "'l dataframe \<Rightarrow> string \<Rightarrow> cell list" where
  "column_cells df c = map (\<lambda>r. lookup (columns df) (snd r) c) (rows df)"

definition numbers :: "cell list \<Rightarrow> real list" where
  "numbers cs = concat (map (\<lambda>c. case c of NaN \<Rightarrow> [] | Num v \<Rightarrow> [v]) cs)"

definition count_stat :: "real list \<Rightarrow> cell" where
  "count_stat xs = Num (real (length xs))"

definition mean :: "real list \<Rightarrow> cell" where
  "mean xs = (if xs = [] then NaN else Num (sum_list xs / real (length xs)))"

definition std :: "real list \<Rightarrow> cell" where
  "std xs =
     (if length xs < 2 then NaN
      else Num (sqrt (sum_list (map (\<lambda>x. (x - sum_list xs / real (length xs))\<^sup>2) xs)
                        / real (length xs - 1))))"

definition minimum :: "real list \<Rightarrow> cell" where
  "minimum xs = (if xs = [] then NaN else Num (fold min (tl xs) (hd xs)))"

definition maximum :: "real list \<Rightarrow> cell" where
  "maximum xs = (if xs = [] then NaN else Num (fold max (tl xs) (hd xs)))"

definition quantile :: "real \<Rightarrow> real list \<Rightarrow> cell" where
  "quantile q xs =
     (if xs = [] then NaN
      else (let s = sort xs;
                h = q * real (length xs - 1);
                lo = nat \<lfloor>h\<rfloor>;
                hi = nat \<lceil>h\<rceil>
            in Num (s ! lo + (s ! hi - s ! lo) * (h - real lo))))"

definition median :: "real list \<Rightarrow> cell" where
  "median xs =
     (if xs = [] then NaN
      else (let s = sort xs; n = length xs
            in Num ((s ! ((n - 1) div 2) + s ! (n div 2)) / 2)))"

text \<open>
  \<^verbatim>\<open>df.describe()\<close>: one row per statistic, one column per column of the frame;
  \<^verbatim>\<open>ValueError\<close> (``Cannot describe a DataFrame without columns'') on a frame without
  columns. \<^verbatim>\<open>.T\<close> turns the table: one row per column of the frame. \<^verbatim>\<open>df.median()\<close> is
  the series of the columns' medians, labelled by the column names. \<^verbatim>\<open>df[[c1, ...]]\<close>
  selects columns by name, \<^verbatim>\<open>KeyError\<close> when one is missing.
\<close>

definition describe :: "'l dataframe \<Rightarrow> error + string dataframe" where
  "describe df =
     (if columns df = [] then Inl ValueError
      else Inr \<lparr>columns = columns df,
                rows = map (\<lambda>st. (fst st, map (\<lambda>c. snd st (numbers (column_cells df c))) (columns df)))
                  [(''count'', count_stat), (''mean'', mean), (''std'', std), (''min'', minimum),
                   (''25%'', quantile (1/4)), (''50%'', quantile (1/2)),
                   (''75%'', quantile (3/4)), (''max'', maximum)]\<rparr>)"

definition transpose_df :: "string dataframe \<Rightarrow> string dataframe" where
  "transpose_df t =
     \<lparr>columns = map fst (rows t),
      rows = map (\<lambda>c. (c, map (\<lambda>r. lookup (columns t) (snd r) c) (rows t))) (columns t)\<rparr>"

definition median_df :: "'l dataframe \<Rightarrow> string series" where
  "median_df df = map (\<lambda>c. (c, median (numbers (column_cells df c)))) (columns df)"

definition getitem_columns :: "'l dataframe \<Rightarrow> string list \<Rightarrow> error + 'l dataframe" where
  "getitem_columns df cs =
     (case filter (\<lambda>c. c \<notin> set (columns df)) cs of
        c # _ \<Rightarrow> Inl (KeyError c)
      | [] \<Rightarrow> Inr \<lparr>columns = cs,
                   rows = map (\<lambda>r. (fst r, map (lookup (columns df) (snd r)) cs)) (rows df)\<rparr>)"

text \<open>
  The third tab of \<^verbatim>\<open>data_cleaning_and_describing\<close>:
  \<^verbatim>\<open>
  desc_stats = df_cleaned.describe().T
  desc_stats['median'] = df_cleaned.median()
  desc_stats = desc_stats[['mean', 'median', 'std', 'min', '25%', '50%', '75%', 'max']]
  st.dataframe(desc_stats.style.highlight_max(axis=0))
  \<close>
  There is one path through it, whatever the number of rows of \<^verbatim>\<open>df_cleaned\<close>.
\<close>

definition desc_stats :: "'l dataframe \<Rightarrow> error + string dataframe" where
  "desc_stats cleaned =
     then_do (describe cleaned) (\<lambda>d.
       getitem_columns (setitem (transpose_df d) ''median'' (median_df cleaned))
         [''mean'', ''median'', ''std'', ''min'', ''25%'', ''50%'', ''75%'', ''max''])"

text \<open>
  What a view puts on the page, in order. Static text is one element whatever it says;
  \<^verbatim>\<open>st.dataframe\<close> shows a table of the dataset or the statistics table, \<^verbatim>\<open>st.write\<close> of
  \<^verbatim>\<open>df.isnull().sum()\<close> the number of missing values of each column, \<^verbatim>\<open>st.multiselect\<close> a
  selection control with its options, \<^verbatim>\<open>st.pyplot\<close> a figure.
\<close>

datatype chart = Boxplot "string list" | Pairplot "string list"

datatype 'l element =
    Header
  | Subheader
  | Text
  | Dataframe "'l dataframe"
  | Null_counts "(string \<times> nat) list"
  | Statistics "string dataframe"
  | Multiselect "string list"
  | Pyplot chart

definition head :: "'l dataframe \<Rightarrow> 'l dataframe" where
  "head df = df\<lparr>rows := take 5 (rows df)\<rparr>"

definition isnull_sum :: "'l dataframe \<Rightarrow> (string \<times> nat) list" where
  "isnull_sum df = map (\<lambda>c. (c, length (filter (\<lambda>x. x = NaN) (column_cells df c)))) (columns df)"

text \<open>
  \<^verbatim>\<open>data_cleaning_and_describing(df, df_cleaned)\<close>: the header and the three tabs (raw
  preview; cleaning notes, missing-value counts and cleaned preview; statistics). An
  exception ends the view.
\<close>

definition data_cleaning_and_describing ::
  "'l dataframe \<Rightarrow> 'l dataframe \<Rightarrow> error + 'l element list" where
  "data_cleaning_and_describing df cleaned =
     then_do (desc_stats cleaned) (\<lambda>stats.
       Inr ([Header]
            @ [Subheader, Text, Dataframe (head df)]
            @ [Subheader, Text, Text, Null_counts (isnull_sum df), Text, Dataframe (head cleaned)]
            @ [Subheader, Text, Statistics stats, Text]))"

section \<open>Charts with a user-chosen column subset (\<^verbatim>\<open>data_visualization\<close>)\<close>

text \<open>
  \<^verbatim>\<open>st.multiselect(label, options, default)\<close> raises \<^verbatim>\<open>StreamlitAPIException\<close> when a default
  is not among the options; otherwise it returns the user's selection, which is the
  default as long as the user has not touched the control.
\<close>

definition multiselect :: "string list \<Rightarrow> string list \<Rightarrow> string list option \<Rightarrow> error + string list" where
  "multiselect options dflt chosen =
     (if \<not> set dflt \<subseteq> set options then Inl StreamlitAPIException
      else Inr (case chosen of None \<Rightarrow> dflt | Some sel \<Rightarrow> sel))"

text \<open>
  The box-plot tab and the pair-plot tab:
  \<^verbatim>\<open>
  selected_features = st.multiselect(..., options=df_cleaned.columns.tolist(),
                                     default=['fixed acidity', 'volatile acidity', 'quality'])
  if selected_features:
      sns.boxplot(data=df_cleaned[selected_features], palette="Set3")
      st.pyplot(plt.gcf()); st.markdown(...)
  \<close>
  and the same with \<^verbatim>\<open>sns.pairplot(df_cleaned[pairplot_features], hue='quality', ...)\<close>. The
  plotting library is outside the program: \<open>plot\<close> stands for it, and says whether
  drawing a chart of a frame raises.
\<close>

definition boxplot_tab ::
  "(chart \<Rightarrow> 'l dataframe \<Rightarrow> error option) \<Rightarrow> 'l dataframe \<Rightarrow> string list option
     \<Rightarrow> error + 'l element list" where
  "boxplot_tab plot cleaned chosen =
     then_do (multiselect (columns cleaned)
                [''fixed acidity'', ''volatile acidity'', ''quality''] chosen) (\<lambda>selected_features.
       if selected_features \<noteq> [] then
         then_do (getitem_columns cleaned selected_features) (\<lambda>data.
           case plot (Boxplot selected_features) data of
             Some e \<Rightarrow> Inl e
           | None \<Rightarrow> Inr [Subheader, Multiselect (columns cleaned),
                          Pyplot (Boxplot selected_features), Text])
       else Inr [Subheader, Multiselect (columns cleaned)])"

definition pairplot_tab ::
  "(chart \<Rightarrow> 'l dataframe \<Rightarrow> error option) \<Rightarrow> 'l dataframe \<Rightarrow> string list option
     \<Rightarrow> error + 'l element list" where
  "pairplot_tab plot cleaned chosen =
     then_do (multiselect (columns cleaned)
                [''fixed acidity'', ''volatile acidity'', ''citric acid'', ''alcohol'', ''quality'']
                chosen) (\<lambda>pairplot_features.
       if pairplot_features \<noteq> [] then
         then_do (getitem_columns cleaned pairplot_features) (\<lambda>data.
           case plot (Pairplot pairplot_features) data of
             Some e \<Rightarrow> Inl e
           | None \<Rightarrow> Inr [Subheader, Multiselect (columns cleaned),
                          Pyplot (Pairplot pairplot_features), Text])
       else Inr [Subheader, Multiselect (columns cleaned)])"

definition has_chart :: "'l element list \<Rightarrow> bool" where
  "has_chart es = list_ex (\<lambda>e. case e of Pyplot _ \<Rightarrow> True | _ \<Rightarrow> False) es"

section \<open>The range sliders and the statistics page (\<^verbatim>\<open>main\<close>)\<close>

text \<open>
  The bounds of the two sliders come from the loaded dataset:
  \<^verbatim>\<open>
  quality_min, quality_max = int(df['quality'].min()), int(df['quality'].max())
  alcohol_min, alcohol_max = float(df['alcohol'].min()), float(df['alcohol'].max())
  \<close>
  \<^verbatim>\<open>Series.min()\<close> and \<^verbatim>\<open>Series.max()\<close> skip \<^verbatim>\<open>NaN\<close> and are \<^verbatim>\<open>NaN\<close> on a column without a
  number; \<^verbatim>\<open>int\<close> of \<^verbatim>\<open>NaN\<close> raises \<^verbatim>\<open>ValueError\<close>, \<^verbatim>\<open>float\<close> of \<^verbatim>\<open>NaN\<close> does not.
\<close>

definition series_numbers :: "'l series \<Rightarrow> real list" where
  "series_numbers s = concat (map (\<lambda>p. case snd p of NaN \<Rightarrow> [] | Num v \<Rightarrow> [v]) s)"

definition series_min :: "'l series \<Rightarrow> cell" where
  "series_min s =
     (case series_numbers s of [] \<Rightarrow> NaN | x # xs \<Rightarrow> Num (fold min xs x))"

definition series_max :: "'l series \<Rightarrow> cell" where
  "series_max s =
     (case series_numbers s of [] \<Rightarrow> NaN | x # xs \<Rightarrow> Num (fold max xs x))"

fun py_int :: "cell \<Rightarrow> error + int" where
  "py_int NaN = Inl ValueError"
| "py_int (Num v) = Inr (trunc v)"

definition quality_bounds :: "'l dataframe \<Rightarrow> error + int \<times> int" where
  "quality_bounds df =
     then_do (getitem df ''quality'') (\<lambda>q0.
     then_do (py_int (series_min q0)) (\<lambda>quality_min.
     then_do (getitem df ''quality'') (\<lambda>q1.
     then_do (py_int (series_max q1)) (\<lambda>quality_max.
       Inr (quality_min, quality_max)))))"

definition alcohol_bounds :: "'l dataframe \<Rightarrow> error + cell \<times> cell" where
  "alcohol_bounds df =
     then_do (getitem df ''alcohol'') (\<lambda>a0.
     then_do (getitem df ''alcohol'') (\<lambda>a1.
       Inr (series_min a0, series_max a1)))"

text \<open>
  \<^verbatim>\<open>st.sidebar.slider(label, min_value, max_value, value=(min_value, max_value))\<close> is a range
  slider: it hands the run a pair \<open>(lo, hi)\<close> with \<open>min_value \<le> lo \<le> hi \<le> max_value\<close>, the
  pair \<open>(min_value, max_value)\<close> as long as the user has not moved it, which is the case
  in the first run of a session. \<open>slider_returns df qf af\<close> says that \<open>qf\<close> and \<open>af\<close> are
  pairs the two sliders over \<open>df\<close> can hand to a run.
\<close>

definition slider_returns :: "'l dataframe \<Rightarrow> int \<times> int \<Rightarrow> real \<times> real \<Rightarrow> bool" where
  "slider_returns df qf af =
     (case quality_bounds df of
        Inl e \<Rightarrow> False
      | Inr (quality_min, quality_max) \<Rightarrow>
          quality_min \<le> fst qf \<and> fst qf \<le> snd qf \<and> snd qf \<le> quality_max \<and>
          (case alcohol_bounds df of
             Inr (Num alcohol_min, Num alcohol_max) \<Rightarrow>
               alcohol_min \<le> fst af \<and> fst af \<le> snd af \<and> snd af \<le> alcohol_max
           | _ \<Rightarrow> False))"

text \<open>
  A run of the script with the navigation on ``Data Cleaning \& Describing'': the filter
  and the cache block as in \<open>main\<close>, then
  \<^verbatim>\<open>
  df_cleaned = st.session_state.df_cleaned
  ...
  elif option == 'Data Cleaning & Describing':
      data_cleaning_and_describing(df, df_cleaned)
  \<close>
  The view gets the dataset read from the session state. The navigation of a session
  starts on ``Introduction'', whose view is static text, so a run on this page is never
  the first run of its session.
\<close>

definition statistics_page ::
  "'l session_state \<Rightarrow> 'l dataframe \<Rightarrow> int \<times> int \<Rightarrow> real \<times> real
     \<Rightarrow> 'l session_state \<times> (error + 'l element list)" where
  "statistics_page st df quality_filter alcohol_filter =
     (case main st df quality_filter alcohol_filter of
        (st', Inl e) \<Rightarrow> (st', Inl e)
      | (st', Inr cleaned) \<Rightarrow> (st', data_cleaning_and_describing df cleaned))"

section \<open>Auxiliary notions for the proofs\<close>

text \<open>The last two steps of the pipeline, which do not read the cells under \<^verbatim>\<open>Id\<close>, and
  the rows of a list that repeat no earlier row, as a selection by position.\<close>

definition last_steps :: "'l dataframe \<Rightarrow> error + 'l dataframe" where
  "last_steps df = then_do (keep_acidity_in_bounds df) drop_id_column"

definition firsts :: "'l row list \<Rightarrow> 'l row list" where
  "firsts rs = nths rs {i. \<forall>j<i. snd (rs ! j) \<noteq> snd (rs ! i)}"

section \<open>A sample dataset\<close>

text \<open>
  Five samples: two that differ in \<^verbatim>\<open>Id\<close> only, one with a fixed acidity of 16, one with
  a missing fixed acidity, and an exact copy of the first.
\<close>

definition ex_df :: "int dataframe" where
  "ex_df = \<lparr>columns = [''fixed acidity'', ''alcohol'', ''quality'', ''Id''],
            rows = [(0, [Num 7, Num 9, Num 5, Num 0]),
                    (1, [Num 7, Num 9, Num 5, Num 1]),
                    (2, [Num 16, Num 10, Num 6, Num 2]),
                    (3, [NaN, Num 11, Num 6, Num 3]),
                    (4, [Num 7, Num 9, Num 5, Num 0])]\<rparr>"

definition ex_cleaned :: "int dataframe" where
  "ex_cleaned = \<lparr>columns = [''fixed acidity'', ''alcohol'', ''quality''],
                 rows = [(0, [Num 7, Num 9, Num 5]), (1, [Num 7, Num 9, Num 5])]\<rparr>"

definition ex_empty :: "int dataframe" where
  "ex_empty = \<lparr>columns = [''fixed acidity'', ''alcohol'', ''quality'', ''Id''], rows = []\<rparr>"

definition ex_empty_cleaned :: "int dataframe" where
  "ex_empty_cleaned = \<lparr>columns = [''fixed acidity'', ''alcohol'', ''quality''], rows = []\<rparr>"

text \<open>A cleaned dataset with the five columns the chart controls select by default.\<close>

definition ex_wide :: "int dataframe" where
  "ex_wide = \<lparr>columns = [''fixed acidity'', ''volatile acidity'', ''citric acid'',
                         ''alcohol'', ''quality''],
              rows = [(0, [Num 7, Num 1, Num 0, Num 9, Num 5])]\<rparr>"

text \<open>
  Four samples, each with the quality or the alcohol missing, and what cleaning makes of
  them at the sliders' full range.
\<close>

definition ex_gaps :: "int dataframe" where
  "ex_gaps = \<lparr>columns = [''fixed acidity'', ''alcohol'', ''quality'', ''Id''],
              rows = [(0, [Num 7, NaN, Num 5, Num 0]),
                      (1, [Num 8, NaN, Num 6, Num 1]),
                      (2, [Num 7, Num 9, NaN, Num 2]),
                      (3, [Num 8, Num 10, NaN, Num 3])]\<rparr>"

section \<open>Masks, lookups and the closed form of the pipeline\<close>

lemma filter_by_mask:
  "map fst (filter snd (zip xs (map P xs))) = filter P xs"
  by (induction xs) auto

lemma mask_and_map:
  "mask_and (map P xs) (map Q xs) = map (\<lambda>x. P x \<and> Q x) xs"
  by (induction xs) (auto simp: mask_and_def)

lemma cell_ge_iff: "cell_ge c b \<longleftrightarrow> (\<exists>v. c = Num v \<and> b \<le> v)"
  by (cases c) auto

lemma cell_le_iff: "cell_le c b \<longleftrightarrow> (\<exists>v. c = Num v \<and> v \<le> b)"
  by (cases c) auto

lemma apply_filters_rows:
  assumes "''quality'' \<in> set (columns df)" and "''alcohol'' \<in> set (columns df)"
  shows "apply_filters df (qlo, qhi) (alo, ahi) =
           Inr (df\<lparr>rows := filter (\<lambda>r.
                  (cell_ge (lookup (columns df) (snd r) ''quality'') (of_int qlo) \<and>
                   cell_le (lookup (columns df) (snd r) ''quality'') (of_int qhi)) \<and>
                   cell_ge (lookup (columns df) (snd r) ''alcohol'') alo \<and>
                   cell_le (lookup (columns df) (snd r) ''alcohol'') ahi) (rows df)\<rparr>)"
  using assms
  by (simp add: apply_filters_def then_do_def getitem_def getitem_mask_def
      series_ge_def series_le_def o_def mask_and_map filter_by_mask conj_assoc)

lemma getitem_mask_filter:
  "getitem_mask df (map P (rows df)) = df\<lparr>rows := filter P (rows df)\<rparr>"
  by (simp add: getitem_mask_def filter_by_mask)

lemma dropna_rows: "dropna df = df\<lparr>rows := filter notna_all (rows df)\<rparr>"
  by (simp add: dropna_def getitem_mask_filter)

lemma duplicated_from_index:
  "duplicated_from seen vs = map (\<lambda>i. vs ! i \<in> set seen \<union> set (take i vs)) [0..<length vs]"
proof (induction vs arbitrary: seen)
  case Nil
  then show ?case by simp
next
  case (Cons v vs)
  have "[0..<length (v # vs)] = 0 # map Suc [0..<length vs]"
    by (simp add: upt_conv_Cons map_Suc_upt del: upt_Suc)
  then show ?case
    by (auto simp add: Cons.IH o_def simp del: upt_Suc)
qed

lemma mask_by_index:
  "map fst (filter snd (zip rs (map f [0..<length rs]))) = map (\<lambda>i. rs ! i) (filter f [0..<length rs])"
proof -
  have "zip rs (map f [0..<length rs]) = map (\<lambda>i. (rs ! i, f i)) [0..<length rs]"
    by (rule nth_equalityI) simp_all
  then show ?thesis
    by (simp add: filter_map o_def)
qed

lemma first_occurrence_iff:
  assumes "i < length rs"
  shows "first_occurrence rs i \<longleftrightarrow> snd (rs ! i) \<notin> set (take i (map snd rs))"
proof -
  have "x \<in> set (take i (map snd rs)) \<longleftrightarrow> (\<exists>j<i. x = snd (rs ! j))" for x
  proof
    assume "x \<in> set (take i (map snd rs))"
    then obtain j where "j < length (take i (map snd rs))" and "take i (map snd rs) ! j = x"
      by (auto simp: in_set_conv_nth)
    with assms show "\<exists>j<i. x = snd (rs ! j)"
      by (intro exI [of _ j]) simp
  next
    assume "\<exists>j<i. x = snd (rs ! j)"
    then obtain j where j: "j < i" "x = snd (rs ! j)"
      by blast
    with assms have "take i (map snd rs) ! j = x" "j < length (take i (map snd rs))"
      by simp_all
    then show "x \<in> set (take i (map snd rs))"
      by (metis nth_mem)
  qed
  then show ?thesis
    by (auto simp: first_occurrence_def list_all_iff)
qed

lemma drop_duplicates_rows:
  assumes "columns df \<noteq> []"
  shows "drop_duplicates df = drop_duplicate_rows df"
proof (cases "rows df = []")
  case True
  then show ?thesis
    by (simp add: drop_duplicates_def drop_duplicate_rows_def empty_df_def)
next
  case False
  have "map Not (duplicated df) =
          map (\<lambda>i. snd (rows df ! i) \<notin> set (take i (map snd (rows df)))) [0..<length (rows df)]"
    by (simp add: duplicated_def duplicated_from_index o_def)
  also have "\<dots> = map (first_occurrence (rows df)) [0..<length (rows df)]"
    by (rule map_cong) (simp_all add: first_occurrence_iff)
  finally show ?thesis
    using assms False
    by (simp add: drop_duplicates_def empty_df_def getitem_mask_def mask_by_index
        drop_duplicate_rows_def)
qed

lemma zip_map_zip:
  "zip cols (map f (zip cols vs)) = map (\<lambda>q. (fst q, f q)) (zip cols vs)"
proof (induction cols arbitrary: vs)
  case Nil
  then show ?case by simp
next
  case (Cons c cols)
  then show ?case by (cases vs) simp_all
qed

lemma map_of_update_other:
  assumes "\<And>q. fst q = c \<Longrightarrow> f q = snd q"
  shows "map_of (map (\<lambda>q. (fst q, f q)) zs) c = map_of zs c"
  using assms by (induction zs) auto

lemma lookup_update_other:
  assumes "\<And>q. fst q = c \<Longrightarrow> f q = snd q"
  shows "lookup cols (map f (zip cols vs)) c = lookup cols vs c"
  using assms by (simp add: lookup_def zip_map_zip map_of_update_other)

lemma drop_cells_update:
  assumes "\<And>q. fst q \<notin> set cs \<Longrightarrow> f q = snd q"
  shows "drop_cells cs cols (map f (zip cols vs)) = drop_cells cs cols vs"
proof -
  have "map snd (filter (\<lambda>p. fst p \<notin> set cs) (map (\<lambda>q. (fst q, f q)) zs))
          = map snd (filter (\<lambda>p. fst p \<notin> set cs) zs)" for zs
    using assms by (induction zs) auto
  then show ?thesis
    by (simp add: drop_cells_def zip_map_zip)
qed

lemma zip_drop_cells:
  "zip (filter (\<lambda>c. c \<notin> set cs) cols) (drop_cells cs cols vs)
     = filter (\<lambda>p. fst p \<notin> set cs) (zip cols vs)"
proof (induction cols arbitrary: vs)
  case Nil
  then show ?case by (simp add: drop_cells_def)
next
  case (Cons c cols)
  then show ?case by (cases vs) (simp_all add: drop_cells_def)
qed

lemma map_of_filter_keys:
  "P c \<Longrightarrow> map_of (filter (\<lambda>p. P (fst p)) zs) c = map_of zs c"
  by (induction zs) auto

lemma lookup_drop_cells:
  assumes "c \<notin> set cs"
  shows "lookup (filter (\<lambda>c. c \<notin> set cs) cols) (drop_cells cs cols vs) c = lookup cols vs c"
  using assms map_of_filter_keys [of "\<lambda>c. c \<notin> set cs" c "zip cols vs"]
  by (simp add: lookup_def zip_drop_cells)

lemma astype_int_closed:
  "astype_int s =
     (if list_ex (\<lambda>p. snd p = NaN) s then Inl ValueError
      else Inr (map (\<lambda>p. (fst p, case snd p of NaN \<Rightarrow> NaN | Num v \<Rightarrow> Num (of_int (trunc v)))) s))"
  by (induction s rule: astype_int.induct) (simp_all add: then_do_def)

lemma zip_with_map: "zip xs (map h xs) = map (\<lambda>x. (x, h x)) xs"
  by (induction xs) simp_all

lemma filter_fixed_acidity_closed:
  "filter_fixed_acidity df = keep_acidity_in_bounds df"
proof -
  have "(cell_gt c 0 \<and> cell_lt c 15) = (case c of NaN \<Rightarrow> False | Num v \<Rightarrow> 0 < v \<and> v < 15)" for c
    by (cases c) simp_all
  then show ?thesis
    by (simp add: filter_fixed_acidity_def keep_acidity_in_bounds_def then_do_def getitem_def
        series_gt_def series_lt_def o_def mask_and_map getitem_mask_filter
        acidity_in_bounds_def [abs_def])
qed

lemma drop_columns_closed:
  "drop_columns df [''Id''] = drop_id_column df"
  by (simp add: drop_columns_def drop_id_column_def drop_cells_def)

lemma convert_id_closed:
  "convert_id df =
     (if ''Id'' \<notin> set (columns df) then Inl (KeyError ''Id'')
      else if list_ex (\<lambda>r. lookup (columns df) (snd r) ''Id'' = NaN) (rows df) then Inl ValueError
      else Inr (df\<lparr>rows := map (\<lambda>r. (fst r,
                   map (\<lambda>q. if fst q = ''Id''
                              then (case lookup (columns df) (snd r) ''Id'' of
                                      NaN \<Rightarrow> NaN | Num v \<Rightarrow> Num (of_int (trunc v)))
                              else snd q)
                       (zip (columns df) (snd r)))) (rows df)\<rparr>))"
  by (simp add: convert_id_def getitem_def then_do_def astype_int_closed setitem_def
      list_ex_iff zip_with_map o_def)

lemma last_steps_closed:
  "last_steps df =
     (if ''fixed acidity'' \<notin> set (columns df) then Inl (KeyError ''fixed acidity'')
      else if ''Id'' \<notin> set (columns df) then Inl (KeyError ''Id'')
      else Inr \<lparr>columns = filter (\<lambda>c. c \<noteq> ''Id'') (columns df),
                rows = map (\<lambda>r. (fst r, drop_cells [''Id''] (columns df) (snd r)))
                         (filter (acidity_in_bounds (columns df)) (rows df))\<rparr>)"
  by (simp add: last_steps_def keep_acidity_in_bounds_def drop_id_column_def then_do_def
      drop_cells_def)

lemma last_steps_update:
  assumes "\<And>r q. fst q \<noteq> ''Id'' \<Longrightarrow> g r q = snd q"
  shows "last_steps (df\<lparr>rows := map (\<lambda>r. (fst r, map (g r) (zip (columns df) (snd r)))) (rows df)\<rparr>)
           = last_steps df"
proof -
  have acid: "acidity_in_bounds (columns df) (fst r, map (g r) (zip (columns df) (snd r)))
                = acidity_in_bounds (columns df) r" for r
    using assms by (simp add: acidity_in_bounds_def lookup_update_other)
  have drop: "drop_cells [''Id''] (columns df) (map (g r) (zip (columns df) (snd r)))
                = drop_cells [''Id''] (columns df) (snd r)" for r
    by (rule drop_cells_update) (simp add: assms)
  show ?thesis
    by (simp add: last_steps_closed filter_map o_def acid drop)
qed

lemma clean_data_closed:
  "clean_data df =
     (if ''Id'' \<notin> set (columns df) then Inl (KeyError ''Id'')
      else if list_ex (\<lambda>r. lookup (columns df) (snd r) ''Id'' = NaN)
                (rows (drop_duplicate_rows (drop_missing_rows df))) then Inl ValueError
      else last_steps (drop_duplicate_rows (drop_missing_rows df)))"
proof -
  have dn: "dropna df = drop_missing_rows df"
  proof -
    have "filter notna_all (rows df) = filter (\<lambda>r. NaN \<notin> set (snd r)) (rows df)"
      by (rule filter_cong) (auto simp: notna_all_def list_all_iff)
    then show ?thesis
      by (simp add: dropna_rows drop_missing_rows_def)
  qed
  show ?thesis
  proof (cases "''Id'' \<in> set (columns df)")
    case False
    then show ?thesis
      by (simp add: clean_data_def convert_id_closed then_do_def drop_duplicates_def
          dropna_rows getitem_mask_def)
  next
    case True
    then have ne: "columns (drop_missing_rows df) \<noteq> []"
      by (auto simp: drop_missing_rows_def)
    have cols: "columns (drop_duplicate_rows (drop_missing_rows df)) = columns df"
      by (simp add: drop_duplicate_rows_def drop_missing_rows_def)
    show ?thesis
      using True
      by (simp add: clean_data_def dn drop_duplicates_rows [OF ne] convert_id_closed cols
          then_do_def filter_fixed_acidity_closed drop_columns_closed
          last_steps_update [where df = "drop_duplicate_rows (drop_missing_rows df)", simplified cols]
          flip: last_steps_def [unfolded then_do_def])
  qed
qed

lemma cleaning_pipeline_spec_closed:
  "cleaning_pipeline_spec df =
     (if ''Id'' \<notin> set (columns df) then Inl (KeyError ''Id'')
      else if list_ex (\<lambda>r. lookup (columns df) (snd r) ''Id'' = NaN)
                (rows (drop_duplicate_rows (drop_missing_rows df))) then Inl ValueError
      else last_steps (drop_duplicate_rows (drop_missing_rows df)))"
proof -
  have cols: "columns (drop_duplicate_rows (drop_missing_rows df)) = columns df"
    by (simp add: drop_duplicate_rows_def drop_missing_rows_def)
  show ?thesis
    by (simp add: cleaning_pipeline_spec_def coerce_id_def cols then_do_def
          last_steps_update [where df = "drop_duplicate_rows (drop_missing_rows df)", simplified cols]
          flip: last_steps_def [unfolded then_do_def])
qed

lemma nths_by_index:
  "nths xs A = map (\<lambda>i. xs ! i) (filter (\<lambda>i. i \<in> A) [0..<length xs])"
proof -
  have "zip xs [0..<length xs] = map (\<lambda>i. (xs ! i, i)) [0..<length xs]"
    by (rule nth_equalityI) simp_all
  then show ?thesis
    by (simp add: nths_def filter_map o_def)
qed

lemma nths_cong_index:
  assumes "\<And>i. i < length xs \<Longrightarrow> i \<in> A \<longleftrightarrow> i \<in> B"
  shows "nths xs A = nths xs B"
proof -
  have "filter (\<lambda>i. i \<in> A) [0..<length xs] = filter (\<lambda>i. i \<in> B) [0..<length xs]"
    by (rule filter_cong) (simp_all add: assms)
  then show ?thesis
    by (simp add: nths_by_index)
qed

lemma filter_nths:
  "filter Q (nths xs A) = nths xs {i. i \<in> A \<and> Q (xs ! i)}"
  by (simp add: nths_by_index filter_map o_def conj_commute)

lemma firsts_snoc:
  "firsts (rs @ [r]) = firsts rs @ (if snd r \<in> snd ` set rs then [] else [r])"
proof -
  have a: "nths rs {i. \<forall>j<i. snd ((rs @ [r]) ! j) \<noteq> snd ((rs @ [r]) ! i)}
             = nths rs {i. \<forall>j<i. snd (rs ! j) \<noteq> snd (rs ! i)}"
    by (rule nths_cong_index) (simp add: nth_append)
  have b: "(\<forall>j<length rs. snd ((rs @ [r]) ! j) \<noteq> snd r) \<longleftrightarrow> snd r \<notin> snd ` set rs"
  proof
    assume h: "\<forall>j<length rs. snd ((rs @ [r]) ! j) \<noteq> snd r"
    show "snd r \<notin> snd ` set rs"
    proof
      assume "snd r \<in> snd ` set rs"
      then obtain x where "x \<in> set rs" and "snd x = snd r"
        by auto
      then obtain j where "j < length rs" and "rs ! j = x"
        by (auto simp: in_set_conv_nth)
      with h \<open>snd x = snd r\<close> show False
        by (auto simp: nth_append)
    qed
  next
    assume h: "snd r \<notin> snd ` set rs"
    show "\<forall>j<length rs. snd ((rs @ [r]) ! j) \<noteq> snd r"
    proof (intro allI impI)
      fix j assume "j < length rs"
      then have "rs ! j \<in> set rs" by simp
      then have "snd (rs ! j) \<in> snd ` set rs" by (rule imageI)
      with h have "snd (rs ! j) \<noteq> snd r" by metis
      with \<open>j < length rs\<close> show "snd ((rs @ [r]) ! j) \<noteq> snd r"
        by (simp add: nth_append)
    qed
  qed
  show ?thesis
    unfolding firsts_def nths_append a
    using b by (simp add: nth_append)
qed

lemma firsts_filter:
  assumes "\<And>x y. snd x = snd y \<Longrightarrow> P x = P y"
  shows "firsts (filter P rs) = filter P (firsts rs)"
proof (induction rs rule: rev_induct)
  case Nil
  then show ?case by (simp add: firsts_def)
next
  case (snoc r rs)
  have "snd r \<in> snd ` set (filter P rs) \<longleftrightarrow> snd r \<in> snd ` set rs" if "P r"
  proof
    assume "snd r \<in> snd ` set (filter P rs)"
    then show "snd r \<in> snd ` set rs" by auto
  next
    assume "snd r \<in> snd ` set rs"
    then obtain x where x: "x \<in> set rs" "snd x = snd r"
      by auto
    with assms [of x r] that have "P x" by simp
    with x have "x \<in> set (filter P rs)" by simp
    then have "snd x \<in> snd ` set (filter P rs)" by (rule imageI)
    with x show "snd r \<in> snd ` set (filter P rs)" by simp
  qed
  with snoc show ?case
    by (simp add: firsts_snoc)
qed

lemma drop_duplicate_rows_firsts:
  "rows (drop_duplicate_rows df) = firsts (rows df)"
proof -
  have "filter (first_occurrence (rows df)) [0..<length (rows df)]
          = filter (\<lambda>i. \<forall>j<i. snd (rows df ! j) \<noteq> snd (rows df ! i)) [0..<length (rows df)]"
    by (rule filter_cong) (auto simp: first_occurrence_def list_all_iff)
  then show ?thesis
    by (simp add: drop_duplicate_rows_def firsts_def nths_by_index)
qed

lemma kept_rows:
  "filter Q (rows (drop_duplicate_rows (drop_missing_rows df)))
     = nths (rows df) {i. (\<forall>j<i. snd (rows df ! j) \<noteq> snd (rows df ! i))
                          \<and> NaN \<notin> set (snd (rows df ! i)) \<and> Q (rows df ! i)}"
proof -
  have "firsts (filter (\<lambda>r. NaN \<notin> set (snd r)) (rows df))
          = filter (\<lambda>r. NaN \<notin> set (snd r)) (firsts (rows df))"
    by (rule firsts_filter) simp
  then show ?thesis
    by (simp add: drop_duplicate_rows_firsts drop_missing_rows_def firsts_def filter_nths
        conj_assoc)
qed

lemma clean_data_success:
  assumes "clean_data df = Inr out"
  shows "''Id'' \<in> set (columns df)" and "''fixed acidity'' \<in> set (columns df)"
    and "columns out = filter (\<lambda>c. c \<noteq> ''Id'') (columns df)"
    and "rows out = map (\<lambda>r. (fst r, drop_cells [''Id''] (columns df) (snd r)))
           (filter (acidity_in_bounds (columns df))
              (rows (drop_duplicate_rows (drop_missing_rows df))))"
proof -
  have cols: "columns (drop_duplicate_rows (drop_missing_rows df)) = columns df"
    by (simp add: drop_duplicate_rows_def drop_missing_rows_def)
  from assms show "''Id'' \<in> set (columns df)"
    by (simp add: clean_data_closed split: if_splits)
  from assms show "''fixed acidity'' \<in> set (columns df)"
    by (simp add: clean_data_closed last_steps_closed cols split: if_splits)
  from assms
  have "out = \<lparr>columns = filter (\<lambda>c. c \<noteq> ''Id'') (columns df),
               rows = map (\<lambda>r. (fst r, drop_cells [''Id''] (columns df) (snd r)))
                 (filter (acidity_in_bounds (columns df))
                    (rows (drop_duplicate_rows (drop_missing_rows df))))\<rparr>"
    by (simp add: clean_data_closed last_steps_closed cols split: if_splits)
  then show "columns out = filter (\<lambda>c. c \<noteq> ''Id'') (columns df)"
    and "rows out = map (\<lambda>r. (fst r, drop_cells [''Id''] (columns df) (snd r)))
           (filter (acidity_in_bounds (columns df))
              (rows (drop_duplicate_rows (drop_missing_rows df))))"
    by simp_all
qed

lemma lookup_map_const:
  assumes "c \<in> set cs"
  shows "lookup cs (map (\<lambda>_. v) cs) c = v"
  using assms by (simp add: lookup_def map_of_zip_map)

lemma desc_stats_no_rows:
  assumes "rows c = []" and "columns c \<noteq> []"
  shows "desc_stats c =
           Inr \<lparr>columns = [''mean'', ''median'', ''std'', ''min'', ''25%'', ''50%'', ''75%'', ''max''],
                rows = map (\<lambda>col. (col, [NaN, NaN, NaN, NaN, NaN, NaN, NaN, NaN])) (columns c)\<rparr>"
proof -
  have cells: "numbers (column_cells c col) = []" for col
    using assms(1) by (simp add: numbers_def column_cells_def)
  have d: "describe c =
             Inr \<lparr>columns = columns c,
                  rows = [(''count'', map (\<lambda>_. Num 0) (columns c)),
                          (''mean'', map (\<lambda>_. NaN) (columns c)),
                          (''std'', map (\<lambda>_. NaN) (columns c)),
                          (''min'', map (\<lambda>_. NaN) (columns c)),
                          (''25%'', map (\<lambda>_. NaN) (columns c)),
                          (''50%'', map (\<lambda>_. NaN) (columns c)),
                          (''75%'', map (\<lambda>_. NaN) (columns c)),
                          (''max'', map (\<lambda>_. NaN) (columns c))]\<rparr>"
    using assms(2)
    by (simp add: describe_def cells count_stat_def mean_def std_def minimum_def maximum_def
        quantile_def)
  have t: "transpose_df
             \<lparr>columns = columns c,
              rows = [(''count'', map (\<lambda>_. Num 0) (columns c)),
                      (''mean'', map (\<lambda>_. NaN) (columns c)),
                      (''std'', map (\<lambda>_. NaN) (columns c)),
                      (''min'', map (\<lambda>_. NaN) (columns c)),
                      (''25%'', map (\<lambda>_. NaN) (columns c)),
                      (''50%'', map (\<lambda>_. NaN) (columns c)),
                      (''75%'', map (\<lambda>_. NaN) (columns c)),
                      (''max'', map (\<lambda>_. NaN) (columns c))]\<rparr>
           = \<lparr>columns = [''count'', ''mean'', ''std'', ''min'', ''25%'', ''50%'', ''75%'', ''max''],
              rows = map (\<lambda>col. (col, [Num 0, NaN, NaN, NaN, NaN, NaN, NaN, NaN])) (columns c)\<rparr>"
    by (simp add: transpose_df_def lookup_map_const cong: map_cong)
  have m: "median_df c = map (\<lambda>col. (col, NaN)) (columns c)"
    by (simp add: median_df_def cells median_def)
  have z: "zip (map f xs) (map g xs) = map (\<lambda>x. (f x, g x)) xs" for f :: "string \<Rightarrow> string row"
      and g :: "string \<Rightarrow> string \<times> cell" and xs
    by (induction xs) simp_all
  show ?thesis
    by (simp add: desc_stats_def d then_do_def t m setitem_def z o_def getitem_columns_def
        lookup_def)
qed

text \<open>The statistics of a dataset with at least one column are computed without raising.\<close>

lemma desc_stats_returns:
  assumes "columns c \<noteq> []"
  shows "\<exists>t. desc_stats c = Inr t"
  using assms
  by (simp add: desc_stats_def describe_def then_do_def transpose_df_def setitem_def
      getitem_columns_def)

text \<open>On a table that has the two columns the pipeline reads, cleaning raises nothing.\<close>

lemma lookup_in_row:
  assumes "c \<in> set cols" and "length vs = length cols"
  shows "lookup cols vs c \<in> set vs"
proof -
  from assms obtain x where x: "map_of (zip cols vs) c = Some x"
    using map_of_zip_is_Some [of cols vs c] by auto
  then have "(c, x) \<in> set (zip cols vs)"
    by (rule map_of_SomeD)
  then have "x \<in> set vs"
    by (rule set_zip_rightD)
  with x show ?thesis
    by (simp add: lookup_def)
qed

lemma clean_data_returns:
  assumes "''Id'' \<in> set (columns df)" and "''fixed acidity'' \<in> set (columns df)"
    and "\<forall>r \<in> set (rows df). length (snd r) = length (columns df)"
  shows "\<exists>out. clean_data df = Inr out"
proof -
  have cols: "columns (drop_duplicate_rows (drop_missing_rows df)) = columns df"
    by (simp add: drop_duplicate_rows_def drop_missing_rows_def)
  have "lookup (columns df) (snd r) ''Id'' \<noteq> NaN"
    if "r \<in> set (rows (drop_duplicate_rows (drop_missing_rows df)))" for r
  proof -
    from that have "r \<in> set (firsts (rows (drop_missing_rows df)))"
      by (simp add: drop_duplicate_rows_firsts)
    then have "r \<in> set (rows (drop_missing_rows df))"
      unfolding firsts_def by (rule in_set_nthsD)
    then have r: "r \<in> set (rows df)" and n: "NaN \<notin> set (snd r)"
      by (simp_all add: drop_missing_rows_def)
    from r assms(3) have "length (snd r) = length (columns df)"
      by blast
    with assms(1) have "lookup (columns df) (snd r) ''Id'' \<in> set (snd r)"
      by (rule lookup_in_row)
    with n show ?thesis
      by metis
  qed
  then have "\<not> list_ex (\<lambda>r. lookup (columns df) (snd r) ''Id'' = NaN)
               (rows (drop_duplicate_rows (drop_missing_rows df)))"
    by (auto simp: list_ex_iff)
  with assms(1,2) show ?thesis
    by (simp add: clean_data_closed last_steps_closed cols)
qed

section \<open>The sample dataset, evaluated\<close>

lemma ex_filter_some: "apply_filters ex_df (5, 5) (9, 10) =
    Inr (ex_df\<lparr>rows := [(0, [Num 7, Num 9, Num 5, Num 0]),
                          (1, [Num 7, Num 9, Num 5, Num 1]),
                          (4, [Num 7, Num 9, Num 5, Num 0])]\<rparr>)"
  by (simp add: apply_filters_def ex_df_def then_do_def getitem_def lookup_def
      getitem_mask_def series_ge_def series_le_def mask_and_def)

lemma ex_filter_none: "apply_filters ex_df (8, 8) (9, 10) = Inr ex_empty"
  by (simp add: apply_filters_def ex_df_def ex_empty_def then_do_def getitem_def lookup_def
      getitem_mask_def series_ge_def series_le_def mask_and_def)

lemma ex_clean: "clean_data ex_df = Inr ex_cleaned"
  by (simp add: clean_data_def ex_df_def ex_cleaned_def then_do_def convert_id_def
      filter_fixed_acidity_def drop_columns_def drop_cells_def getitem_def lookup_def
      dropna_def drop_duplicates_def duplicated_def empty_df_def getitem_mask_def notna_all_def
      setitem_def series_gt_def series_lt_def mask_and_def trunc_def)

lemma ex_clean_filtered:
  "clean_data (ex_df\<lparr>rows := [(0, [Num 7, Num 9, Num 5, Num 0]),
                                (1, [Num 7, Num 9, Num 5, Num 1]),
                                (4, [Num 7, Num 9, Num 5, Num 0])]\<rparr>) = Inr ex_cleaned"
  by (simp add: clean_data_def ex_df_def ex_cleaned_def then_do_def convert_id_def
      filter_fixed_acidity_def drop_columns_def drop_cells_def getitem_def lookup_def
      dropna_def drop_duplicates_def duplicated_def empty_df_def getitem_mask_def notna_all_def
      setitem_def series_gt_def series_lt_def mask_and_def trunc_def)

lemma ex_clean_empty: "clean_data ex_empty = Inr ex_empty_cleaned"
  by (simp add: clean_data_def ex_empty_def ex_empty_cleaned_def then_do_def convert_id_def
      filter_fixed_acidity_def drop_columns_def drop_cells_def getitem_def lookup_def
      dropna_def drop_duplicates_def duplicated_def empty_df_def getitem_mask_def notna_all_def
      setitem_def series_gt_def series_lt_def mask_and_def trunc_def)

lemma ex_gaps_quality: "quality_bounds ex_gaps = Inr (5, 6)"
  by (simp add: quality_bounds_def ex_gaps_def getitem_def then_do_def lookup_def
      series_min_def series_max_def series_numbers_def trunc_def)

lemma ex_gaps_alcohol: "alcohol_bounds ex_gaps = Inr (Num 9, Num 10)"
  by (simp add: alcohol_bounds_def ex_gaps_def getitem_def then_do_def lookup_def
      series_min_def series_max_def series_numbers_def)

lemma ex_gaps_filter: "apply_filters ex_gaps (5, 6) (9, 10) = Inr ex_empty"
  by (simp add: apply_filters_def ex_gaps_def ex_empty_def then_do_def getitem_def lookup_def
      getitem_mask_def series_ge_def series_le_def mask_and_def)

lemma ex_df_quality: "quality_bounds ex_df = Inr (5, 6)"
  by (simp add: quality_bounds_def ex_df_def getitem_def then_do_def lookup_def
      series_min_def series_max_def series_numbers_def trunc_def)

lemma ex_df_alcohol: "alcohol_bounds ex_df = Inr (Num 9, Num 11)"
  by (simp add: alcohol_bounds_def ex_df_def getitem_def then_do_def lookup_def
      series_min_def series_max_def series_numbers_def)

lemma ex_df_filter_none: "apply_filters ex_df (6, 6) (9, 9) = Inr ex_empty"
  by (simp add: apply_filters_def ex_df_def ex_empty_def then_do_def getitem_def lookup_def
      getitem_mask_def series_ge_def series_le_def mask_and_def)

lemma ex_cleaned_stats:
  "desc_stats ex_cleaned =
     Inr \<lparr>columns = [''mean'', ''median'', ''std'', ''min'', ''25%'', ''50%'', ''75%'', ''max''],
          rows = [(''fixed acidity'', [Num 7, Num 7, Num 0, Num 7, Num 7, Num 7, Num 7, Num 7]),
                  (''alcohol'', [Num 9, Num 9, Num 0, Num 9, Num 9, Num 9, Num 9, Num 9]),
                  (''quality'', [Num 5, Num 5, Num 0, Num 5, Num 5, Num 5, Num 5, Num 5])]\<rparr>"
  by (simp add: desc_stats_def describe_def then_do_def transpose_df_def setitem_def
      getitem_columns_def ex_cleaned_def column_cells_def numbers_def lookup_def
      count_stat_def mean_def std_def minimum_def maximum_def quantile_def median_def
      median_df_def Let_def)

lemma ex_clean_again: "clean_data ex_cleaned = Inl (KeyError ''Id'')"
  by (simp add: clean_data_closed ex_cleaned_def)

section \<open>The claims\<close>

text \<open>
  C1. For every raw dataset that has the \<^verbatim>\<open>quality\<close> and \<^verbatim>\<open>alcohol\<close> columns and every
  pair of inclusive ranges (integer quality bounds, float alcohol bounds), the Filter
  Layer raises nothing and returns, with the columns unchanged, exactly the rows of the
  raw dataset whose quality lies within the quality bounds and whose alcohol lies within
  the alcohol bounds, in their original order: every returned row satisfies both range
  predicates and every row satisfying both is returned.
\<close>

theorem filter_layer_exact:
  assumes "''quality'' \<in> set (columns df)" and "''alcohol'' \<in> set (columns df)"
  shows "\<exists>out. apply_filters df (qlo, qhi) (alo, ahi) = Inr out
           \<and> columns out = columns df
           \<and> rows out = filter (\<lambda>r.
                 (\<exists>q. lookup (columns df) (snd r) ''quality'' = Num q
                       \<and> of_int qlo \<le> q \<and> q \<le> of_int qhi) \<and>
                 (\<exists>a. lookup (columns df) (snd r) ''alcohol'' = Num a
                       \<and> alo \<le> a \<and> a \<le> ahi)) (rows df)"
proof -
  let ?P = "\<lambda>r. (cell_ge (lookup (columns df) (snd r) ''quality'') (of_int qlo) \<and>
                   cell_le (lookup (columns df) (snd r) ''quality'') (of_int qhi)) \<and>
                   cell_ge (lookup (columns df) (snd r) ''alcohol'') alo \<and>
                   cell_le (lookup (columns df) (snd r) ''alcohol'') ahi"
  let ?Q = "\<lambda>r. (\<exists>q. lookup (columns df) (snd r) ''quality'' = Num q
                       \<and> of_int qlo \<le> q \<and> q \<le> of_int qhi) \<and>
                 (\<exists>a. lookup (columns df) (snd r) ''alcohol'' = Num a
                       \<and> alo \<le> a \<and> a \<le> ahi)"
  have "filter ?P (rows df) = filter ?Q (rows df)"
    by (rule filter_cong) (auto simp: cell_ge_iff cell_le_iff)
  with apply_filters_rows [OF assms, of qlo qhi alo ahi] show ?thesis
    by simp
qed

theorem filter_layer_exact_witness:
  "''quality'' \<in> set (columns ex_df) \<and> ''alcohol'' \<in> set (columns ex_df)
   \<and> apply_filters ex_df (5, 5) (9, 10) =
       Inr \<lparr>columns = [''fixed acidity'', ''alcohol'', ''quality'', ''Id''],
            rows = [(0, [Num 7, Num 9, Num 5, Num 0]),
                    (1, [Num 7, Num 9, Num 5, Num 1]),
                    (4, [Num 7, Num 9, Num 5, Num 0])]\<rparr>"
proof -
  have q: "''quality'' \<in> set (columns ex_df)" and a: "''alcohol'' \<in> set (columns ex_df)"
    by (simp_all add: ex_df_def)
  from filter_layer_exact [OF q a, of 5 5 9 10]
  obtain out where "apply_filters ex_df (5, 5) (9, 10) = Inr out"
    and "columns out = columns ex_df"
    and "rows out = filter (\<lambda>r.
                 (\<exists>q. lookup (columns ex_df) (snd r) ''quality'' = Num q
                       \<and> of_int 5 \<le> q \<and> q \<le> of_int 5) \<and>
                 (\<exists>a. lookup (columns ex_df) (snd r) ''alcohol'' = Num a
                       \<and> 9 \<le> a \<and> a \<le> 10)) (rows ex_df)"
    by blast
  then show ?thesis
    using q a by (cases out) (simp add: ex_df_def lookup_def)
qed

text \<open>
  C2. For every input dataset, the Cleaning Pipeline of the program equals the
  composition, in this order, of the five steps of the specification: drop the rows
  with a missing field, drop the exact-duplicate rows (assessed before the coercion of
  \<^verbatim>\<open>Id\<close>), coerce \<^verbatim>\<open>Id\<close> to integer, keep the rows with \<open>0 < fixed acidity < 15\<close>, drop the
  \<^verbatim>\<open>Id\<close> column; the two agree on the result and on the exception raised.
\<close>

theorem clean_data_is_spec_sequence:
  "clean_data df = cleaning_pipeline_spec df"
  by (simp only: clean_data_closed cleaning_pipeline_spec_closed)

theorem clean_data_is_spec_sequence_witness:
  "cleaning_pipeline_spec ex_df = Inr ex_cleaned \<and> clean_data ex_df = Inr ex_cleaned"
proof -
  have "cleaning_pipeline_spec ex_df = Inr ex_cleaned"
    by (simp add: cleaning_pipeline_spec_def ex_df_def ex_cleaned_def then_do_def
        coerce_id_def keep_acidity_in_bounds_def drop_id_column_def drop_missing_rows_def
        drop_duplicate_rows_def first_occurrence_def acidity_in_bounds_def lookup_def
        upt_conv_Cons trunc_def)
  with clean_data_is_spec_sequence [of ex_df] show ?thesis
    by simp
qed

text \<open>
  C3. Once a run has computed the Cleaned Dataset and stored it in the session state,
  every later run of the session leaves the session state as it is and hands the views
  that same Cleaned Dataset, whatever dataset and filter bounds the run is given (the
  Filtered Dataset of the run is not cleaned again); a run that raises in the Filter
  Layer leaves the session state as it is, too.
\<close>

theorem cached_cleaned_never_replaced:
  assumes "df_cleaned st = Some c"
  shows "reruns st inputs = st
         \<and> (case apply_filters df qf af of
              Inl e \<Rightarrow> main (reruns st inputs) df qf af = (st, Inl e)
            | Inr df_filtered \<Rightarrow> main (reruns st inputs) df qf af = (st, Inr c))"
proof -
  have one: "fst (main st d q a) = st" for d :: "'a dataframe" and q a
    using assms by (simp add: main_def split: sum.splits)
  have "reruns st inputs = st"
  proof (induction inputs)
    case Nil
    then show ?case by simp
  next
    case (Cons i inputs)
    then show ?case
      by (cases i) (simp add: one)
  qed
  then show ?thesis
    using assms by (simp add: main_def split: sum.splits)
qed

theorem cached_cleaned_never_replaced_witness:
  "main \<lparr>df_cleaned = None\<rparr> ex_df (5, 5) (9, 10)
     = (\<lparr>df_cleaned = Some ex_cleaned\<rparr>, Inr ex_cleaned)
   \<and> reruns \<lparr>df_cleaned = Some ex_cleaned\<rparr>
        [(ex_df, (8, 8), (9, 10)), (ex_df, (3, 8), (9, 11))]
      = \<lparr>df_cleaned = Some ex_cleaned\<rparr>
   \<and> main (reruns \<lparr>df_cleaned = Some ex_cleaned\<rparr>
              [(ex_df, (8, 8), (9, 10)), (ex_df, (3, 8), (9, 11))]) ex_df (8, 8) (9, 10)
      = (\<lparr>df_cleaned = Some ex_cleaned\<rparr>, Inr ex_cleaned)"
proof -
  have first: "main \<lparr>df_cleaned = None\<rparr> ex_df (5, 5) (9, 10)
                 = (\<lparr>df_cleaned = Some ex_cleaned\<rparr>, Inr ex_cleaned)"
    by (simp add: main_def ex_filter_some ex_clean_filtered)
  have stored: "df_cleaned \<lparr>df_cleaned = Some ex_cleaned\<rparr> = Some ex_cleaned"
    by simp
  note kept = cached_cleaned_never_replaced [OF stored,
      of "[(ex_df, (8, 8), (9, 10)), (ex_df, (3, 8), (9, 11))]" ex_df "(8, 8)" "(9, 10)"]
  have r: "reruns \<lparr>df_cleaned = Some ex_cleaned\<rparr>
             [(ex_df, (8, 8), (9, 10)), (ex_df, (3, 8), (9, 11))] = \<lparr>df_cleaned = Some ex_cleaned\<rparr>"
    using kept by (rule conjunct1)
  have m: "main (reruns \<lparr>df_cleaned = Some ex_cleaned\<rparr>
                    [(ex_df, (8, 8), (9, 10)), (ex_df, (3, 8), (9, 11))]) ex_df (8, 8) (9, 10)
              = (\<lparr>df_cleaned = Some ex_cleaned\<rparr>, Inr ex_cleaned)"
    using kept [THEN conjunct2] by (simp only: ex_filter_none sum.case)
  from first r m show ?thesis
    by (intro conjI)
qed

text \<open>
  C4 (as amended). Whenever the Cleaning Pipeline returns a dataset, that dataset has no
  missing value and no fixed acidity outside \<open>(0, 15)\<close>: dropping the rows with a missing
  field and keeping the rows with \<open>0 < fixed acidity < 15\<close> both return it unchanged. The
  whole cleaning sequence cannot be run on it again: the output has no \<^verbatim>\<open>Id\<close> column, and
  the coercion of \<^verbatim>\<open>Id\<close> raises \<^verbatim>\<open>KeyError\<close>. Nothing is said about duplicates among the
  output's rows.
\<close>

theorem cleaned_is_stable_under_row_filters:
  assumes "clean_data df = Inr out"
  shows "dropna out = out
         \<and> filter_fixed_acidity out = Inr out
         \<and> clean_data out = Inl (KeyError ''Id'')"
proof -
  note s = clean_data_success [OF assms]
  let ?kept = "filter (acidity_in_bounds (columns df))
                 (rows (drop_duplicate_rows (drop_missing_rows df)))"
  have complete: "NaN \<notin> set (snd r)" if "r \<in> set ?kept" for r
  proof -
    from that have "r \<in> set (firsts (rows (drop_missing_rows df)))"
      by (simp add: drop_duplicate_rows_firsts)
    then have "r \<in> set (rows (drop_missing_rows df))"
      unfolding firsts_def by (rule in_set_nthsD)
    then show ?thesis
      by (simp add: drop_missing_rows_def)
  qed
  have "notna_all (fst r, drop_cells [''Id''] (columns df) (snd r))" if "r \<in> set ?kept" for r
  proof -
    have "set (drop_cells [''Id''] (columns df) (snd r)) \<subseteq> set (snd r)"
      by (auto simp: drop_cells_def dest: set_zip_rightD)
    with complete [OF that] show ?thesis
      by (auto simp: notna_all_def list_all_iff)
  qed
  then have "\<forall>x \<in> set (rows out). notna_all x"
    by (auto simp: s(4))
  then have "filter notna_all (rows out) = rows out"
    by (simp add: filter_id_conv)
  then have 1: "dropna out = out"
    by (simp add: dropna_rows)
  have fa: "''fixed acidity'' \<in> set (columns out)"
    using s(2) by (simp add: s(3))
  have "acidity_in_bounds (columns out) (fst r, drop_cells [''Id''] (columns df) (snd r))"
    if "r \<in> set ?kept" for r
    using that lookup_drop_cells [of "''fixed acidity''" "[''Id'']" "columns df" "snd r"]
    by (simp add: acidity_in_bounds_def s(3))
  then have "\<forall>x \<in> set (rows out). acidity_in_bounds (columns out) x"
    by (auto simp: s(4))
  then have "filter (acidity_in_bounds (columns out)) (rows out) = rows out"
    by (simp add: filter_id_conv)
  with fa have 2: "filter_fixed_acidity out = Inr out"
    by (simp add: filter_fixed_acidity_closed keep_acidity_in_bounds_def)
  have 3: "clean_data out = Inl (KeyError ''Id'')"
    by (simp add: clean_data_closed s(3))
  from 1 2 3 show ?thesis
    by (intro conjI)
qed

theorem cleaned_is_stable_under_row_filters_witness:
  "clean_data ex_df = Inr ex_cleaned
   \<and> dropna ex_cleaned = ex_cleaned
   \<and> filter_fixed_acidity ex_cleaned = Inr ex_cleaned
   \<and> clean_data ex_cleaned = Inl (KeyError ''Id'')"
  using cleaned_is_stable_under_row_filters [OF ex_clean] ex_clean
  by (intro conjI) simp_all

theorem cleaning_not_idempotent_counterexample:
  "clean_data ex_df = Inr ex_cleaned
   \<and> then_do (clean_data ex_df) clean_data \<noteq> clean_data ex_df
   \<and> rows ex_cleaned = [(0, [Num 7, Num 9, Num 5]), (1, [Num 7, Num 9, Num 5])]
   \<and> rows (drop_duplicates ex_cleaned) = [(0, [Num 7, Num 9, Num 5])]"
proof -
  have "rows (drop_duplicates ex_cleaned) = [(0, [Num 7, Num 9, Num 5])]"
    by (simp add: drop_duplicates_def duplicated_def empty_df_def getitem_mask_def
        ex_cleaned_def)
  then show ?thesis
    by (simp add: ex_clean ex_clean_again then_do_def) (simp add: ex_cleaned_def)
qed

text \<open>
  C5. For every input dataset on which the Cleaning Pipeline returns, every row of the
  Cleaned Dataset has a number under \<^verbatim>\<open>fixed acidity\<close> that is strictly greater than 0 and
  strictly less than 15.
\<close>

theorem cleaned_acidity_in_bounds:
  assumes "clean_data df = Inr out"
  shows "\<forall>r \<in> set (rows out).
           \<exists>v. lookup (columns out) (snd r) ''fixed acidity'' = Num v \<and> 0 < v \<and> v < 15"
proof
  fix r assume "r \<in> set (rows out)"
  note s = clean_data_success [OF assms]
  from \<open>r \<in> set (rows out)\<close> obtain r0
    where r: "r = (fst r0, drop_cells [''Id''] (columns df) (snd r0))"
      and a: "acidity_in_bounds (columns df) r0"
    by (auto simp: s(4))
  have "lookup (columns out) (snd r) ''fixed acidity'' = lookup (columns df) (snd r0) ''fixed acidity''"
    using lookup_drop_cells [of "''fixed acidity''" "[''Id'']" "columns df" "snd r0"]
    by (simp add: r s(3))
  with a show "\<exists>v. lookup (columns out) (snd r) ''fixed acidity'' = Num v \<and> 0 < v \<and> v < 15"
    by (simp add: acidity_in_bounds_def split: cell.splits)
qed

theorem cleaned_acidity_in_bounds_witness:
  "clean_data ex_df = Inr ex_cleaned
   \<and> lookup (columns ex_cleaned) [Num 7, Num 9, Num 5] ''fixed acidity'' = Num 7
   \<and> (\<exists>v. lookup (columns ex_cleaned) [Num 7, Num 9, Num 5] ''fixed acidity'' = Num v
           \<and> 0 < v \<and> v < 15)"
proof -
  have "(0, [Num 7, Num 9, Num 5]) \<in> set (rows ex_cleaned)"
    by (simp add: ex_cleaned_def)
  with cleaned_acidity_in_bounds [OF ex_clean]
  have "\<exists>v. lookup (columns ex_cleaned) (snd (0::int, [Num 7, Num 9, Num 5])) ''fixed acidity'' = Num v
           \<and> 0 < v \<and> v < 15"
    by (rule bspec)
  then show ?thesis
    by (simp add: ex_clean) (simp add: ex_cleaned_def lookup_def)
qed

text \<open>
  C6. For every input dataset on which the Cleaning Pipeline returns, the Cleaned
  Dataset has no \<^verbatim>\<open>Id\<close> column.
\<close>

theorem cleaned_has_no_id:
  assumes "clean_data df = Inr out"
  shows "''Id'' \<notin> set (columns out)"
  by (simp add: clean_data_success(3) [OF assms])

theorem cleaned_has_no_id_witness:
  "clean_data ex_df = Inr ex_cleaned \<and> ''Id'' \<notin> set (columns ex_cleaned)
   \<and> columns ex_cleaned = [''fixed acidity'', ''alcohol'', ''quality'']"
  using cleaned_has_no_id [OF ex_clean] ex_clean by (simp add: ex_cleaned_def)

text \<open>
  C8. In the two chart sub-views that take a user-chosen column subset (box plot and
  pairwise scatter matrix), over a Cleaned Dataset that has the columns the selection
  control offers by default, a selection of zero columns raises no error and draws no
  chart: the sub-view shows its heading and the selection control and nothing else,
  whatever the plotting library would do.
\<close>

theorem empty_selection_renders_no_chart:
  fixes cleaned :: "'l dataframe"
  assumes "set [''fixed acidity'', ''volatile acidity'', ''citric acid'', ''alcohol'', ''quality'']
             \<subseteq> set (columns cleaned)"
  shows "boxplot_tab plot cleaned (Some []) = Inr [Subheader, Multiselect (columns cleaned)]
         \<and> pairplot_tab plot cleaned (Some []) = Inr [Subheader, Multiselect (columns cleaned)]
         \<and> \<not> has_chart ([Subheader, Multiselect (columns cleaned)] :: 'l element list)"
  using assms
  by (simp add: boxplot_tab_def pairplot_tab_def multiselect_def then_do_def has_chart_def)

theorem empty_selection_renders_no_chart_witness:
  "set [''fixed acidity'', ''volatile acidity'', ''citric acid'', ''alcohol'', ''quality'']
     \<subseteq> set (columns ex_wide)
   \<and> boxplot_tab (\<lambda>ch d. Some ValueError) ex_wide (Some [])
       = Inr [Subheader, Multiselect [''fixed acidity'', ''volatile acidity'', ''citric acid'',
                                      ''alcohol'', ''quality'']]
   \<and> pairplot_tab (\<lambda>ch d. Some ValueError) ex_wide (Some [])
       = Inr [Subheader, Multiselect [''fixed acidity'', ''volatile acidity'', ''citric acid'',
                                      ''alcohol'', ''quality'']]"
proof -
  have h: "set [''fixed acidity'', ''volatile acidity'', ''citric acid'', ''alcohol'', ''quality'']
             \<subseteq> set (columns ex_wide)"
    by (simp add: ex_wide_def)
  note t = empty_selection_renders_no_chart [OF h, of "\<lambda>ch d. Some ValueError"]
  have c: "columns ex_wide = [''fixed acidity'', ''volatile acidity'', ''citric acid'',
                              ''alcohol'', ''quality'']"
    by (simp add: ex_wide_def)
  from t have "boxplot_tab (\<lambda>ch d. Some ValueError) ex_wide (Some [])
                 = Inr [Subheader, Multiselect (columns ex_wide)]"
    by (rule conjunct1)
  moreover from t have "pairplot_tab (\<lambda>ch d. Some ValueError) ex_wide (Some [])
                 = Inr [Subheader, Multiselect (columns ex_wide)]"
    by (rule conjunct2 [THEN conjunct1])
  ultimately show ?thesis
    using h unfolding c by (intro conjI)
qed

text \<open>
  C9 (as amended). When the filter bounds exclude every row of a dataset that has the
  \<^verbatim>\<open>Id\<close> and \<^verbatim>\<open>fixed acidity\<close> columns, the empty Filtered Dataset is a valid result, not
  an error, and the run goes through the cache block and the statistics view without
  raising. What the view shows is decided by the cache. With no Cleaned Dataset cached,
  the run cleans the empty Filtered Dataset: the Cleaned Dataset is empty, it is
  cached, and the view shows the usual statistics table, one row per column, with mean,
  median, standard deviation, minimum, quartiles and maximum all \<^verbatim>\<open>NaN\<close>. With a Cleaned
  Dataset cached (one with a column), the empty Filtered Dataset is not cleaned and the
  view shows the statistics of the cached dataset, which are all \<^verbatim>\<open>NaN\<close> exactly as
  above when the cached dataset has no rows. The view has one path: there is no
  separate no-data state.
\<close>

theorem empty_filter_result_statistics:
  assumes "apply_filters df qf af = Inr f" and "rows f = []"
    and "''Id'' \<in> set (columns df)" and "''fixed acidity'' \<in> set (columns df)"
  shows "(df_cleaned st = None \<longrightarrow>
            (\<exists>c. rows c = [] \<and> columns c = filter (\<lambda>x. x \<noteq> ''Id'') (columns df)
               \<and> main st df qf af = (st\<lparr>df_cleaned := Some c\<rparr>, Inr c)
               \<and> statistics_page st df qf af =
                   (st\<lparr>df_cleaned := Some c\<rparr>,
                    Inr [Header,
                         Subheader, Text, Dataframe (head df),
                         Subheader, Text, Text, Null_counts (isnull_sum df), Text, Dataframe c,
                         Subheader, Text,
                         Statistics \<lparr>columns = [''mean'', ''median'', ''std'', ''min'',
                                                ''25%'', ''50%'', ''75%'', ''max''],
                                     rows = map (\<lambda>col. (col, [NaN, NaN, NaN, NaN, NaN, NaN, NaN, NaN]))
                                              (columns c)\<rparr>,
                         Text])))
       \<and> (\<forall>c. df_cleaned st = Some c \<and> columns c \<noteq> [] \<longrightarrow>
            (\<exists>t. desc_stats c = Inr t
               \<and> main st df qf af = (st, Inr c)
               \<and> statistics_page st df qf af =
                   (st,
                    Inr [Header,
                         Subheader, Text, Dataframe (head df),
                         Subheader, Text, Text, Null_counts (isnull_sum df), Text,
                         Dataframe (head c),
                         Subheader, Text, Statistics t, Text])
               \<and> (rows c = [] \<longrightarrow>
                    t = \<lparr>columns = [''mean'', ''median'', ''std'', ''min'',
                                    ''25%'', ''50%'', ''75%'', ''max''],
                         rows = map (\<lambda>col. (col, [NaN, NaN, NaN, NaN, NaN, NaN, NaN, NaN]))
                                  (columns c)\<rparr>)))"
proof (intro conjI impI allI)
  assume none: "df_cleaned st = None"
  have cols: "columns f = columns df"
    using assms(1)
    by (auto simp: apply_filters_def then_do_def getitem_def getitem_mask_def split: if_splits)
  let ?c = "\<lparr>columns = filter (\<lambda>x. x \<noteq> ''Id'') (columns df), rows = []\<rparr> :: 'a dataframe"
  have clean: "clean_data f = Inr ?c"
    using assms(2-4)
    by (simp add: clean_data_closed last_steps_closed cols drop_duplicate_rows_def
        drop_missing_rows_def)
  have m: "main st df qf af = (st\<lparr>df_cleaned := Some ?c\<rparr>, Inr ?c)"
    by (simp add: main_def assms(1) none clean)
  have "''fixed acidity'' \<in> set (filter (\<lambda>x. x \<noteq> ''Id'') (columns df))"
    using assms(4) by simp
  then have "filter (\<lambda>x. x \<noteq> ''Id'') (columns df) \<noteq> []"
    by (metis empty_iff empty_set)
  then have ne: "columns ?c \<noteq> []"
    by simp
  have view: "data_cleaning_and_describing df ?c =
          Inr [Header,
               Subheader, Text, Dataframe (head df),
               Subheader, Text, Text, Null_counts (isnull_sum df), Text, Dataframe ?c,
               Subheader, Text,
               Statistics \<lparr>columns = [''mean'', ''median'', ''std'', ''min'',
                                      ''25%'', ''50%'', ''75%'', ''max''],
                           rows = map (\<lambda>col. (col, [NaN, NaN, NaN, NaN, NaN, NaN, NaN, NaN]))
                                    (columns ?c)\<rparr>,
               Text]"
    unfolding data_cleaning_and_describing_def desc_stats_no_rows [of ?c, OF _ ne, simplified]
    by (simp add: then_do_def head_def)
  have page: "statistics_page st df qf af =
                (st\<lparr>df_cleaned := Some ?c\<rparr>,
                 Inr [Header,
                      Subheader, Text, Dataframe (head df),
                      Subheader, Text, Text, Null_counts (isnull_sum df), Text, Dataframe ?c,
                      Subheader, Text,
                      Statistics \<lparr>columns = [''mean'', ''median'', ''std'', ''min'',
                                             ''25%'', ''50%'', ''75%'', ''max''],
                                  rows = map (\<lambda>col. (col, [NaN, NaN, NaN, NaN, NaN, NaN, NaN, NaN]))
                                           (columns ?c)\<rparr>,
                      Text])"
    unfolding statistics_page_def m by (simp add: view)
  from m page
  show "\<exists>c. rows c = [] \<and> columns c = filter (\<lambda>x. x \<noteq> ''Id'') (columns df)
          \<and> main st df qf af = (st\<lparr>df_cleaned := Some c\<rparr>, Inr c)
          \<and> statistics_page st df qf af =
              (st\<lparr>df_cleaned := Some c\<rparr>,
               Inr [Header,
                    Subheader, Text, Dataframe (head df),
                    Subheader, Text, Text, Null_counts (isnull_sum df), Text, Dataframe c,
                    Subheader, Text,
                    Statistics \<lparr>columns = [''mean'', ''median'', ''std'', ''min'',
                                           ''25%'', ''50%'', ''75%'', ''max''],
                                rows = map (\<lambda>col. (col, [NaN, NaN, NaN, NaN, NaN, NaN, NaN, NaN]))
                                         (columns c)\<rparr>,
                    Text])"
    by (intro exI [of _ ?c]) simp
next
  fix c assume some: "df_cleaned st = Some c \<and> columns c \<noteq> []"
  then obtain t where t: "desc_stats c = Inr t"
    using desc_stats_returns [of c] by blast
  have m: "main st df qf af = (st, Inr c)"
    using some by (simp add: main_def assms(1))
  have page: "statistics_page st df qf af =
                (st,
                 Inr [Header,
                      Subheader, Text, Dataframe (head df),
                      Subheader, Text, Text, Null_counts (isnull_sum df), Text,
                      Dataframe (head c),
                      Subheader, Text, Statistics t, Text])"
    unfolding statistics_page_def m
    by (simp add: data_cleaning_and_describing_def t then_do_def)
  have "t = \<lparr>columns = [''mean'', ''median'', ''std'', ''min'', ''25%'', ''50%'', ''75%'', ''max''],
             rows = map (\<lambda>col. (col, [NaN, NaN, NaN, NaN, NaN, NaN, NaN, NaN])) (columns c)\<rparr>"
    if "rows c = []"
    using desc_stats_no_rows [of c] that some t by simp
  with t m page
  show "\<exists>t. desc_stats c = Inr t
          \<and> main st df qf af = (st, Inr c)
          \<and> statistics_page st df qf af =
              (st,
               Inr [Header,
                    Subheader, Text, Dataframe (head df),
                    Subheader, Text, Text, Null_counts (isnull_sum df), Text,
                    Dataframe (head c),
                    Subheader, Text, Statistics t, Text])
          \<and> (rows c = [] \<longrightarrow>
               t = \<lparr>columns = [''mean'', ''median'', ''std'', ''min'',
                               ''25%'', ''50%'', ''75%'', ''max''],
                    rows = map (\<lambda>col. (col, [NaN, NaN, NaN, NaN, NaN, NaN, NaN, NaN]))
                             (columns c)\<rparr>)"
    by (intro exI [of _ t] conjI impI)
qed

theorem empty_filter_result_statistics_witness:
  "slider_returns ex_gaps (5, 6) (9, 10)
   \<and> apply_filters ex_gaps (5, 6) (9, 10) = Inr ex_empty \<and> rows ex_empty = []
   \<and> ''Id'' \<in> set (columns ex_gaps) \<and> ''fixed acidity'' \<in> set (columns ex_gaps)
   \<and> df_cleaned \<lparr>df_cleaned = None :: int dataframe option\<rparr> = None
   \<and> (\<exists>c. rows c = [] \<and> columns c = [''fixed acidity'', ''alcohol'', ''quality'']
         \<and> main \<lparr>df_cleaned = None\<rparr> ex_gaps (5, 6) (9, 10) = (\<lparr>df_cleaned = Some c\<rparr>, Inr c))
   \<and> slider_returns ex_df (6, 6) (9, 9)
   \<and> apply_filters ex_df (6, 6) (9, 9) = Inr ex_empty
   \<and> ''Id'' \<in> set (columns ex_df) \<and> ''fixed acidity'' \<in> set (columns ex_df)
   \<and> df_cleaned \<lparr>df_cleaned = Some ex_cleaned\<rparr> = Some ex_cleaned \<and> columns ex_cleaned \<noteq> []
   \<and> main \<lparr>df_cleaned = Some ex_cleaned\<rparr> ex_df (6, 6) (9, 9)
       = (\<lparr>df_cleaned = Some ex_cleaned\<rparr>, Inr ex_cleaned)
   \<and> (\<exists>t. desc_stats ex_cleaned = Inr t
         \<and> statistics_page \<lparr>df_cleaned = Some ex_cleaned\<rparr> ex_df (6, 6) (9, 9)
             = (\<lparr>df_cleaned = Some ex_cleaned\<rparr>,
                Inr [Header,
                     Subheader, Text, Dataframe (head ex_df),
                     Subheader, Text, Text, Null_counts (isnull_sum ex_df), Text,
                     Dataframe (head ex_cleaned),
                     Subheader, Text, Statistics t, Text]))"
proof -
  have r: "rows ex_empty = []"
    by (simp add: ex_empty_def)
  have gi: "''Id'' \<in> set (columns ex_gaps)" and ga: "''fixed acidity'' \<in> set (columns ex_gaps)"
    by (simp_all add: ex_gaps_def)
  have di: "''Id'' \<in> set (columns ex_df)" and da: "''fixed acidity'' \<in> set (columns ex_df)"
    by (simp_all add: ex_df_def)
  have sg: "slider_returns ex_gaps (5, 6) (9, 10)"
    by (simp add: slider_returns_def ex_gaps_quality ex_gaps_alcohol)
  have sd: "slider_returns ex_df (6, 6) (9, 9)"
    by (simp add: slider_returns_def ex_df_quality ex_df_alcohol)
  have n: "df_cleaned \<lparr>df_cleaned = None :: int dataframe option\<rparr> = None"
    by simp
  have s: "df_cleaned \<lparr>df_cleaned = Some ex_cleaned\<rparr> = Some ex_cleaned \<and> columns ex_cleaned \<noteq> []"
    by (simp add: ex_cleaned_def)
  from empty_filter_result_statistics [OF ex_gaps_filter r gi ga,
      of "\<lparr>df_cleaned = None\<rparr>", THEN conjunct1, rule_format, OF n]
  obtain c where "rows c = []" and "columns c = filter (\<lambda>x. x \<noteq> ''Id'') (columns ex_gaps)"
    and "main \<lparr>df_cleaned = None\<rparr> ex_gaps (5, 6) (9, 10)
           = (\<lparr>df_cleaned = None\<rparr>\<lparr>df_cleaned := Some c\<rparr>, Inr c)"
    by blast
  then have first: "\<exists>c. rows c = [] \<and> columns c = [''fixed acidity'', ''alcohol'', ''quality'']
         \<and> main \<lparr>df_cleaned = None\<rparr> ex_gaps (5, 6) (9, 10) = (\<lparr>df_cleaned = Some c\<rparr>, Inr c)"
    by (intro exI [of _ c]) (simp add: ex_gaps_def)
  from empty_filter_result_statistics [OF ex_df_filter_none r di da,
      of "\<lparr>df_cleaned = Some ex_cleaned\<rparr>", THEN conjunct2, rule_format, OF s]
  obtain t where t: "desc_stats ex_cleaned = Inr t"
    and m: "main \<lparr>df_cleaned = Some ex_cleaned\<rparr> ex_df (6, 6) (9, 9)
              = (\<lparr>df_cleaned = Some ex_cleaned\<rparr>, Inr ex_cleaned)"
    and p: "statistics_page \<lparr>df_cleaned = Some ex_cleaned\<rparr> ex_df (6, 6) (9, 9)
             = (\<lparr>df_cleaned = Some ex_cleaned\<rparr>,
                Inr [Header,
                     Subheader, Text, Dataframe (head ex_df),
                     Subheader, Text, Text, Null_counts (isnull_sum ex_df), Text,
                     Dataframe (head ex_cleaned),
                     Subheader, Text, Statistics t, Text])"
    by blast
  from t p have second: "\<exists>t. desc_stats ex_cleaned = Inr t
         \<and> statistics_page \<lparr>df_cleaned = Some ex_cleaned\<rparr> ex_df (6, 6) (9, 9)
             = (\<lparr>df_cleaned = Some ex_cleaned\<rparr>,
                Inr [Header,
                     Subheader, Text, Dataframe (head ex_df),
                     Subheader, Text, Text, Null_counts (isnull_sum ex_df), Text,
                     Dataframe (head ex_cleaned),
                     Subheader, Text, Statistics t, Text])"
    by (intro exI [of _ t] conjI)
  from sg ex_gaps_filter r gi ga n first sd ex_df_filter_none di da s m second
  show ?thesis
    by (intro conjI) (erule conjunct1 conjunct2 | assumption)+
qed

text \<open>
  The claim fails in a session over \<open>ex_gaps\<close> whose sliders stay at their full range,
  \<open>(5, 6)\<close> and \<open>(9, 10)\<close>: every row misses its quality or its alcohol, so the Filtered
  Dataset is empty. The first run of the session caches the empty Cleaned Dataset; the
  run on the statistics page then shows the statistics table filled with \<^verbatim>\<open>NaN\<close>.
\<close>

theorem empty_statistics_counterexample:
  "quality_bounds ex_gaps = Inr (5, 6) \<and> alcohol_bounds ex_gaps = Inr (Num 9, Num 10)
   \<and> slider_returns ex_gaps (5, 6) (9, 10)
   \<and> apply_filters ex_gaps (5, 6) (9, 10) = Inr ex_empty
   \<and> main \<lparr>df_cleaned = None\<rparr> ex_gaps (5, 6) (9, 10)
       = (\<lparr>df_cleaned = Some ex_empty_cleaned\<rparr>, Inr ex_empty_cleaned)
   \<and> statistics_page \<lparr>df_cleaned = Some ex_empty_cleaned\<rparr> ex_gaps (5, 6) (9, 10)
       = (\<lparr>df_cleaned = Some ex_empty_cleaned\<rparr>,
          Inr [Header,
               Subheader, Text, Dataframe (head ex_gaps),
               Subheader, Text, Text, Null_counts (isnull_sum ex_gaps), Text,
               Dataframe ex_empty_cleaned,
               Subheader, Text,
               Statistics \<lparr>columns = [''mean'', ''median'', ''std'', ''min'',
                                      ''25%'', ''50%'', ''75%'', ''max''],
                           rows = [(''fixed acidity'', [NaN, NaN, NaN, NaN, NaN, NaN, NaN, NaN]),
                                   (''alcohol'', [NaN, NaN, NaN, NaN, NaN, NaN, NaN, NaN]),
                                   (''quality'', [NaN, NaN, NaN, NaN, NaN, NaN, NaN, NaN])]\<rparr>,
               Text])"
proof -
  have s: "slider_returns ex_gaps (5, 6) (9, 10)"
    by (simp add: slider_returns_def ex_gaps_quality ex_gaps_alcohol)
  have m: "main \<lparr>df_cleaned = None\<rparr> ex_gaps (5, 6) (9, 10)
             = (\<lparr>df_cleaned = Some ex_empty_cleaned\<rparr>, Inr ex_empty_cleaned)"
    by (simp add: main_def ex_gaps_filter ex_clean_empty)
  have d: "desc_stats ex_empty_cleaned =
          Inr \<lparr>columns = [''mean'', ''median'', ''std'', ''min'', ''25%'', ''50%'', ''75%'', ''max''],
               rows = [(''fixed acidity'', [NaN, NaN, NaN, NaN, NaN, NaN, NaN, NaN]),
                       (''alcohol'', [NaN, NaN, NaN, NaN, NaN, NaN, NaN, NaN]),
                       (''quality'', [NaN, NaN, NaN, NaN, NaN, NaN, NaN, NaN])]\<rparr>"
    using desc_stats_no_rows [of ex_empty_cleaned] by (simp add: ex_empty_cleaned_def)
  have h: "head ex_empty_cleaned = ex_empty_cleaned"
    by (simp add: head_def ex_empty_cleaned_def)
  have p: "statistics_page \<lparr>df_cleaned = Some ex_empty_cleaned\<rparr> ex_gaps (5, 6) (9, 10)
       = (\<lparr>df_cleaned = Some ex_empty_cleaned\<rparr>,
          Inr [Header,
               Subheader, Text, Dataframe (head ex_gaps),
               Subheader, Text, Text, Null_counts (isnull_sum ex_gaps), Text,
               Dataframe ex_empty_cleaned,
               Subheader, Text,
               Statistics \<lparr>columns = [''mean'', ''median'', ''std'', ''min'',
                                      ''25%'', ''50%'', ''75%'', ''max''],
                           rows = [(''fixed acidity'', [NaN, NaN, NaN, NaN, NaN, NaN, NaN, NaN]),
                                   (''alcohol'', [NaN, NaN, NaN, NaN, NaN, NaN, NaN, NaN]),
                                   (''quality'', [NaN, NaN, NaN, NaN, NaN, NaN, NaN, NaN])]\<rparr>,
               Text])"
    by (simp add: statistics_page_def main_def ex_gaps_filter data_cleaning_and_describing_def
        d then_do_def h)
  from ex_gaps_quality ex_gaps_alcohol s ex_gaps_filter m p show ?thesis
    by (intro conjI)
qed

text \<open>
  C10. The Cleaning Pipeline adds no row and alters no value of a retained column. When
  it returns, the Cleaned Dataset has the columns of the input other than \<^verbatim>\<open>Id\<close>, and its
  rows are, in the input's order and under their labels, the input rows that have no
  missing field, have \<open>0 < fixed acidity < 15\<close> and repeat no earlier row (the first of
  equal rows is the one kept), each with its \<^verbatim>\<open>Id\<close> cell removed: under every column
  other than \<^verbatim>\<open>Id\<close> such a row reads as the input row does.
\<close>

theorem cleaned_rows_come_from_input:
  assumes "clean_data df = Inr out"
  shows "columns out = filter (\<lambda>c. c \<noteq> ''Id'') (columns df)
         \<and> rows out = map (\<lambda>r. (fst r, drop_cells [''Id''] (columns df) (snd r)))
             (nths (rows df)
                {i. (\<forall>j<i. snd (rows df ! j) \<noteq> snd (rows df ! i))
                    \<and> NaN \<notin> set (snd (rows df ! i))
                    \<and> acidity_in_bounds (columns df) (rows df ! i)})
         \<and> (\<forall>vs c. c \<noteq> ''Id'' \<longrightarrow>
               lookup (columns out) (drop_cells [''Id''] (columns df) vs) c
                 = lookup (columns df) vs c)
         \<and> subseq (map fst (rows out)) (map fst (rows df))"
proof -
  note s = clean_data_success [OF assms]
  let ?I = "{i. (\<forall>j<i. snd (rows df ! j) \<noteq> snd (rows df ! i))
                \<and> NaN \<notin> set (snd (rows df ! i))
                \<and> acidity_in_bounds (columns df) (rows df ! i)}"
  have rows: "rows out = map (\<lambda>r. (fst r, drop_cells [''Id''] (columns df) (snd r)))
                           (nths (rows df) ?I)"
    by (simp add: s(4) kept_rows)
  have look: "lookup (columns out) (drop_cells [''Id''] (columns df) vs) c
                = lookup (columns df) vs c" if "c \<noteq> ''Id''" for vs c
    using that lookup_drop_cells [of c "[''Id'']" "columns df" vs]
    by (simp add: s(3))
  have "map fst (rows out) = nths (map fst (rows df)) ?I"
    unfolding rows nths_map by (simp add: o_def)
  then have "\<exists>N. map fst (rows out) = nths (map fst (rows df)) N"
    by (rule exI)
  then have sub: "subseq (map fst (rows out)) (map fst (rows df))"
    by (simp only: subseq_conv_nths)
  have all: "\<forall>vs c. c \<noteq> ''Id'' \<longrightarrow>
               lookup (columns out) (drop_cells [''Id''] (columns df) vs) c
                 = lookup (columns df) vs c"
    using look by (intro allI impI)
  from s(3) rows all sub show ?thesis
    by (intro conjI)
qed

theorem cleaned_rows_come_from_input_witness:
  "clean_data ex_df = Inr ex_cleaned
   \<and> columns ex_cleaned = [''fixed acidity'', ''alcohol'', ''quality'']
   \<and> rows ex_cleaned = map (\<lambda>r. (fst r, drop_cells [''Id''] (columns ex_df) (snd r)))
             (nths (rows ex_df)
                {i. (\<forall>j<i. snd (rows ex_df ! j) \<noteq> snd (rows ex_df ! i))
                    \<and> NaN \<notin> set (snd (rows ex_df ! i))
                    \<and> acidity_in_bounds (columns ex_df) (rows ex_df ! i)})
   \<and> subseq [0, 1] [0, 1, 2, 3, 4 :: int]"
  using cleaned_rows_come_from_input [OF ex_clean] ex_clean
  by (simp add: ex_df_def ex_cleaned_def)

end
